theory Spec2Isabelle
  imports Main "HOL-Library.Word"
begin

section \<open>The configuration loader of \<^verbatim>\<open>pkg/config/config.go\<close>\<close>

text \<open>
  The package has two functions, \<^verbatim>\<open>DefaultConfig\<close> and \<^verbatim>\<open>LoadConfig\<close>.
  \<^verbatim>\<open>LoadConfig\<close> calls the operating system (\<^verbatim>\<open>os.ExpandEnv\<close>, \<^verbatim>\<open>os.Open\<close>,
  \<^verbatim>\<open>ioutil.ReadAll\<close>, the deferred \<^verbatim>\<open>Close\<close>) and two third-party libraries
  (\<^verbatim>\<open>yaml.Unmarshal\<close>, and \<^verbatim>\<open>Generate\<close>, \<^verbatim>\<open>Encode\<close>, \<^verbatim>\<open>DecodeKey\<close> of fernet).
  None of these is part of the package: they are the fields of a record \<open>world\<close>, and
  \<^verbatim>\<open>LoadConfig\<close> is a function of the world and the path. Its result is the pair of
  Go results (or a panic) together with the list of the external effects it performed.
\<close>

subsection \<open>Data model\<close>

text \<open>
  Go's \<^verbatim>\<open>int\<close> and \<^verbatim>\<open>time.Duration\<close> (an \<^verbatim>\<open>int64\<close> of nanoseconds) are \<open>int\<close>: the
  package does no arithmetic on them beyond the two constant products of
  \<^verbatim>\<open>DefaultConfig\<close>, which are far below \<open>2 ^ 63\<close>. A Go string is a \<open>string\<close>, a
  pointer to a struct is an \<open>option\<close> (\<open>None\<close> is \<^verbatim>\<open>nil\<close>).
\<close>

type_synonym Duration = int

definition Nanosecond :: Duration where "Nanosecond = 1"
definition Microsecond :: Duration where "Microsecond = 1000 * Nanosecond"
definition Millisecond :: Duration where "Millisecond = 1000 * Microsecond"
definition Second :: Duration where "Second = 1000 * Millisecond"
definition Minute :: Duration where "Minute = 60 * Second"
definition Hour :: Duration where "Hour = 60 * Minute"

text \<open>
  Modelled from the spec: \<^verbatim>\<open>database.RegistrableComponentConfig\<close> is declared in
  another package of the repository, outside \<^verbatim>\<open>src/\<close>. The spec describes it as ``store
  connection parameters and store-type discriminator''; \<^verbatim>\<open>DefaultConfig\<close> sets its
  \<^verbatim>\<open>Type\<close> and leaves the rest at the zero value. The connection parameters are an
  association list, empty at the zero value.
\<close>

record RegistrableComponentConfig =
  Type :: string
  Options :: "(string \<times> string) list"

text \<open>
  Modelled from the spec: \<^verbatim>\<open>notification.Config\<close> is declared outside \<^verbatim>\<open>src/\<close> too
  (``retry-attempt count, re-notify interval''); these are the two fields that
  \<^verbatim>\<open>DefaultConfig\<close> sets.
\<close>

record NotificationConfig =
  Attempts :: int
  RenotifyInterval :: Duration

record UpdaterConfig =
  Cron :: string
  Disabled :: bool

record APIConfig =
  Port :: int
  HealthPort :: int
  Timeout :: Duration
  PaginationKey :: string
  CertFile :: string
  KeyFile :: string
  CAFile :: string

record Config =
  Database :: RegistrableComponentConfig
  Updater :: "UpdaterConfig option"
  Notifier :: "NotificationConfig option"
  API :: "APIConfig option"

record File =
  Clair :: Config

text \<open>
  A Go \<^verbatim>\<open>error\<close>. An error made by a library is kept with the call that made it;
  \<open>ErrorsNew\<close> is \<^verbatim>\<open>errors.New\<close> of the package itself.
\<close>

datatype error =
    OpenError string
  | ReadError string
  | UnmarshalError string
  | GenerateError string
  | ErrorsNew string

definition ErrDatasourceNotLoaded :: error where
  "ErrDatasourceNotLoaded = ErrorsNew ''could not load configuration: no database source specified''"

text \<open>The classes of the spec's error taxonomy, by the call an error comes from.\<close>

fun is_IOError :: "error \<Rightarrow> bool" where
  "is_IOError (OpenError m) = True"
| "is_IOError (ReadError m) = True"
| "is_IOError e = False"

fun is_ParseError :: "error \<Rightarrow> bool" where
  "is_ParseError (UnmarshalError m) = True"
| "is_ParseError e = False"

fun is_KeyGenerationError :: "error \<Rightarrow> bool" where
  "is_KeyGenerationError (GenerateError m) = True"
| "is_KeyGenerationError e = False"

fun is_ValidationError :: "error \<Rightarrow> bool" where
  "is_ValidationError (ErrorsNew m) = (ErrorsNew m \<noteq> ErrDatasourceNotLoaded)"
| "is_ValidationError e = False"

subsection \<open>The world outside the package\<close>

type_synonym Key = "8 word list"

datatype event =
    EvExpandEnv string
  | EvOpen string
  | EvReadAll nat
  | EvClose nat
  | EvRandRead

text \<open>
  A file handle is a number. \<open>key_Generate\<close> is the outcome of the one read of
  \<^verbatim>\<open>crypto/rand\<close> that a call can make. A library error is its message.
\<close>

record world =
  os_ExpandEnv :: "string \<Rightarrow> string"
  os_Open :: "string \<Rightarrow> string + nat"
  ioutil_ReadAll :: "nat \<Rightarrow> string + string"
  yaml_Unmarshal :: "string \<Rightarrow> File \<Rightarrow> string + File"
  key_Generate :: "string + Key"
  key_Encode :: "Key \<Rightarrow> string"
  fernet_DecodeKey :: "string \<Rightarrow> string + Key"
  time_ParseDuration :: "string \<Rightarrow> Duration option"

subsection \<open>The two functions\<close>

definition DefaultConfig :: Config where
  "DefaultConfig =
     \<lparr> Database = \<lparr> Type = ''pgsql'', Options = [] \<rparr>,
       Updater = Some \<lparr> Cron = ''@midnight'', Disabled = False \<rparr>,
       Notifier = Some \<lparr> Attempts = 5, RenotifyInterval = 2 * Hour \<rparr>,
       API = Some \<lparr> Port = 6060, HealthPort = 6061, Timeout = 900 * Second,
                    PaginationKey = '''', CertFile = '''', KeyFile = '''', CAFile = '''' \<rparr> \<rparr>"

text \<open>
  What a call does: it returns the two named results \<^verbatim>\<open>config\<close> and \<^verbatim>\<open>err\<close>, or it
  panics (line 104 reads through \<^verbatim>\<open>config.API\<close> without a nil check).
\<close>

datatype outcome =
    Return "Config option" "error option"
  | Panic string

definition nil_dereference :: string where
  "nil_dereference = ''invalid memory address or nil pointer dereference''"

text \<open>
  Lines 103 to 116, on the config that \<^verbatim>\<open>yaml.Unmarshal\<close> left in \<^verbatim>\<open>cfgFile.Clair\<close>.
  \<^verbatim>\<open>config\<close> already points to it, so every return here carries it.
\<close>

definition pagination_key_step :: "world \<Rightarrow> Config \<Rightarrow> outcome \<times> event list" where
  "pagination_key_step w config =
     (case API config of
        None \<Rightarrow> (Panic nil_dereference, [])
      | Some api \<Rightarrow>
          if PaginationKey api = '''' then
            (case key_Generate w of
               Inl e \<Rightarrow> (Return (Some config) (Some (GenerateError e)), [EvRandRead])
             | Inr key \<Rightarrow>
                 (Return (Some (config\<lparr>API := Some (api\<lparr>PaginationKey := key_Encode w key\<rparr>)\<rparr>)) None,
                  [EvRandRead]))
          else
            (case fernet_DecodeKey w (PaginationKey api) of
               Inl e \<Rightarrow>
                 (Return (Some config)
                    (Some (ErrorsNew ''invalid Pagination key; must be 32-bit URL-safe base64'')), [])
             | Inr key \<Rightarrow> (Return (Some config) None, [])))"

text \<open>
  \<^verbatim>\<open>LoadConfig\<close>, lines 79 to 119. The deferred \<^verbatim>\<open>f.Close()\<close> runs last on every
  exit after a successful open, a panic included.
\<close>

definition LoadConfig :: "world \<Rightarrow> string \<Rightarrow> outcome \<times> event list" where
  "LoadConfig w path =
     (let cfgFile = \<lparr> Clair = DefaultConfig \<rparr> in
      if path = '''' then (Return (Some (Clair cfgFile)) None, [])
      else
        let name = os_ExpandEnv w path in
        case os_Open w name of
          Inl e \<Rightarrow> (Return None (Some (OpenError e)), [EvExpandEnv path, EvOpen name])
        | Inr f \<Rightarrow>
            (case ioutil_ReadAll w f of
               Inl e \<Rightarrow>
                 (Return None (Some (ReadError e)),
                  [EvExpandEnv path, EvOpen name, EvReadAll f, EvClose f])
             | Inr d \<Rightarrow>
                 (case yaml_Unmarshal w d cfgFile of
                    Inl e \<Rightarrow>
                      (Return None (Some (UnmarshalError e)),
                       [EvExpandEnv path, EvOpen name, EvReadAll f, EvClose f])
                  | Inr cfgFile' \<Rightarrow>
                      (case pagination_key_step w (Clair cfgFile') of
                         (res, evs) \<Rightarrow>
                           (res, [EvExpandEnv path, EvOpen name, EvReadAll f] @ evs @ [EvClose f])))))"

subsection \<open>Observations on an outcome\<close>

fun returned_error :: "outcome \<Rightarrow> error option option" where
  "returned_error (Return c e) = Some e"
| "returned_error (Panic m) = None"

text \<open>
  The world in which every document read yields the database block \<open>db\<close>, whatever
  it held, and everything else is as in \<open>w\<close>.
\<close>

definition with_database :: "RegistrableComponentConfig \<Rightarrow> world \<Rightarrow> world" where
  "with_database db w =
     w\<lparr>yaml_Unmarshal :=
         (\<lambda>d f. map_sum id (\<lambda>f'. f'\<lparr>Clair := (Clair f')\<lparr>Database := db\<rparr>\<rparr>)
                  (yaml_Unmarshal w d f))\<rparr>"

subsection \<open>URL-safe base64\<close>

text \<open>
  Modelled from the spec: the pagination key is ``a valid 32-byte value encoded as
  URL-safe base64''. The encoding is the one of RFC 4648 with the alphabet that ends in
  \<^verbatim>\<open>-\<close> and \<^verbatim>\<open>_\<close>, padded with \<^verbatim>\<open>=\<close>; bytes are numbers below 256.
\<close>

definition urlsafe_alphabet :: string where
  "urlsafe_alphabet = ''ABCDEFGHIJKLMNOPQRSTUVWXYZabcdefghijklmnopqrstuvwxyz0123456789-_''"

definition sextet_char :: "nat \<Rightarrow> char" where
  "sextet_char n = urlsafe_alphabet ! (n mod 64)"

fun index_of :: "'a \<Rightarrow> 'a list \<Rightarrow> nat option" where
  "index_of x [] = None"
| "index_of x (y # ys) = (if x = y then Some 0 else map_option Suc (index_of x ys))"

definition char_sextet :: "char \<Rightarrow> nat option" where
  "char_sextet c = index_of c urlsafe_alphabet"

fun b64url_encode :: "nat list \<Rightarrow> string" where
  "b64url_encode [] = []"
| "b64url_encode [a] =
     [sextet_char (a div 4), sextet_char (a mod 4 * 16), CHR ''='', CHR ''='']"
| "b64url_encode [a, b] =
     [sextet_char (a div 4), sextet_char (a mod 4 * 16 + b div 16),
      sextet_char (b mod 16 * 4), CHR ''='']"
| "b64url_encode (a # b # c # bs) =
     [sextet_char (a div 4), sextet_char (a mod 4 * 16 + b div 16),
      sextet_char (b mod 16 * 4 + c div 64), sextet_char (c mod 64)] @ b64url_encode bs"

definition decode_quantum :: "char \<Rightarrow> char \<Rightarrow> char \<Rightarrow> char \<Rightarrow> nat list option" where
  "decode_quantum c1 c2 c3 c4 =
     (case (char_sextet c1, char_sextet c2, char_sextet c3, char_sextet c4) of
        (Some p, Some q, Some r, Some s) \<Rightarrow>
          Some [p * 4 + q div 16, q mod 16 * 16 + r div 4, r mod 4 * 64 + s]
      | _ \<Rightarrow> None)"

definition decode_final :: "char \<Rightarrow> char \<Rightarrow> char \<Rightarrow> char \<Rightarrow> nat list option" where
  "decode_final c1 c2 c3 c4 =
     (if c4 \<noteq> CHR ''='' then decode_quantum c1 c2 c3 c4
      else if c3 \<noteq> CHR ''='' then
        (case (char_sextet c1, char_sextet c2, char_sextet c3) of
           (Some p, Some q, Some r) \<Rightarrow> Some [p * 4 + q div 16, q mod 16 * 16 + r div 4]
         | _ \<Rightarrow> None)
      else
        (case (char_sextet c1, char_sextet c2) of
           (Some p, Some q) \<Rightarrow> Some [p * 4 + q div 16]
         | _ \<Rightarrow> None))"

fun b64url_decode :: "string \<Rightarrow> nat list option" where
  "b64url_decode [] = Some []"
| "b64url_decode [c1, c2, c3, c4] = decode_final c1 c2 c3 c4"
| "b64url_decode (c1 # c2 # c3 # c4 # cs) =
     (case decode_quantum c1 c2 c3 c4 of
        None \<Rightarrow> None
      | Some bs \<Rightarrow> map_option ((@) bs) (b64url_decode cs))"
| "b64url_decode cs = None"

definition valid_pagination_key :: "string \<Rightarrow> bool" where
  "valid_pagination_key s =
     (case b64url_decode s of None \<Rightarrow> False | Some bs \<Rightarrow> length bs = 32)"

subsection \<open>What a document does to the pre-populated defaults\<close>

text \<open>
  Modelled from the spec: \<^verbatim>\<open>yaml.Unmarshal\<close> is third-party code, not under
  \<^verbatim>\<open>src/\<close>. The spec gives the shape of a document (one top-level key \<^verbatim>\<open>clair\<close>
  over the four blocks, durations written as strings) and its effect: ``fields present
  in the document overlay the pre-populated defaults field-by-field (nested defaults
  survive if the corresponding nested block is entirely absent from the document;
  partially-specified nested blocks replace only the fields they specify)'', the
  defaults holding ``unless explicitly overridden by the input document's corresponding
  substructure''. A key of a document is absent, or given with a value, or given with
  the YAML null value; the last one is the document overriding the default with nothing,
  and stores Go's zero value (\<^verbatim>\<open>nil\<close> for a pointer). A duration string that does not
  parse makes the whole decoding fail.
\<close>

datatype 'a yaml_field = Absent | Null | Given 'a

record database_doc =
  y_type :: "string yaml_field"
  y_options :: "(string \<times> string) list yaml_field"

record updater_doc =
  y_cron :: "string yaml_field"
  y_disabled :: "bool yaml_field"

record notifier_doc =
  y_attempts :: "int yaml_field"
  y_renotifyinterval :: "string yaml_field"

record api_doc =
  y_port :: "int yaml_field"
  y_healthport :: "int yaml_field"
  y_timeout :: "string yaml_field"
  y_paginationkey :: "string yaml_field"
  y_certfile :: "string yaml_field"
  y_keyfile :: "string yaml_field"
  y_cafile :: "string yaml_field"

record clair_doc =
  y_database :: "database_doc yaml_field"
  y_updater :: "updater_doc yaml_field"
  y_notifier :: "notifier_doc yaml_field"
  y_api :: "api_doc yaml_field"

record file_doc =
  y_clair :: "clair_doc yaml_field"

definition zero_RegistrableComponentConfig :: RegistrableComponentConfig where
  "zero_RegistrableComponentConfig = \<lparr> Type = '''', Options = [] \<rparr>"

definition zero_UpdaterConfig :: UpdaterConfig where
  "zero_UpdaterConfig = \<lparr> Cron = '''', Disabled = False \<rparr>"

definition zero_NotificationConfig :: NotificationConfig where
  "zero_NotificationConfig = \<lparr> Attempts = 0, RenotifyInterval = 0 \<rparr>"

definition zero_APIConfig :: APIConfig where
  "zero_APIConfig =
     \<lparr> Port = 0, HealthPort = 0, Timeout = 0, PaginationKey = '''',
       CertFile = '''', KeyFile = '''', CAFile = '''' \<rparr>"

definition zero_Config :: Config where
  "zero_Config =
     \<lparr> Database = zero_RegistrableComponentConfig, Updater = None, Notifier = None, API = None \<rparr>"

definition set_field :: "'a yaml_field \<Rightarrow> 'a \<Rightarrow> 'a \<Rightarrow> 'a" where
  "set_field fld zero old = (case fld of Absent \<Rightarrow> old | Null \<Rightarrow> zero | Given v \<Rightarrow> v)"

definition set_duration ::
  "(string \<Rightarrow> Duration option) \<Rightarrow> string yaml_field \<Rightarrow> Duration \<Rightarrow> Duration option" where
  "set_duration pd fld old =
     (case fld of Absent \<Rightarrow> Some old | Null \<Rightarrow> Some 0 | Given s \<Rightarrow> pd s)"

definition set_pointer ::
  "('d \<Rightarrow> 'c \<Rightarrow> 'c option) \<Rightarrow> 'c \<Rightarrow> 'd yaml_field \<Rightarrow> 'c option \<Rightarrow> 'c option option" where
  "set_pointer ov zero fld old =
     (case fld of
        Absent \<Rightarrow> Some old
      | Null \<Rightarrow> Some None
      | Given d \<Rightarrow> map_option Some (ov d (case old of None \<Rightarrow> zero | Some c \<Rightarrow> c)))"

definition overlay_database ::
  "database_doc \<Rightarrow> RegistrableComponentConfig \<Rightarrow> RegistrableComponentConfig" where
  "overlay_database d old =
     \<lparr> Type = set_field (y_type d) '''' (Type old),
       Options = set_field (y_options d) [] (Options old) \<rparr>"

definition overlay_updater :: "updater_doc \<Rightarrow> UpdaterConfig \<Rightarrow> UpdaterConfig option" where
  "overlay_updater d old =
     Some \<lparr> Cron = set_field (y_cron d) '''' (Cron old),
            Disabled = set_field (y_disabled d) False (Disabled old) \<rparr>"

definition overlay_notifier ::
  "(string \<Rightarrow> Duration option) \<Rightarrow> notifier_doc \<Rightarrow> NotificationConfig \<Rightarrow> NotificationConfig option" where
  "overlay_notifier pd d old =
     (case set_duration pd (y_renotifyinterval d) (RenotifyInterval old) of
        None \<Rightarrow> None
      | Some i \<Rightarrow>
          Some \<lparr> Attempts = set_field (y_attempts d) 0 (Attempts old), RenotifyInterval = i \<rparr>)"

definition overlay_api ::
  "(string \<Rightarrow> Duration option) \<Rightarrow> api_doc \<Rightarrow> APIConfig \<Rightarrow> APIConfig option" where
  "overlay_api pd d old =
     (case set_duration pd (y_timeout d) (Timeout old) of
        None \<Rightarrow> None
      | Some t \<Rightarrow>
          Some \<lparr> Port = set_field (y_port d) 0 (Port old),
                 HealthPort = set_field (y_healthport d) 0 (HealthPort old),
                 Timeout = t,
                 PaginationKey = set_field (y_paginationkey d) '''' (PaginationKey old),
                 CertFile = set_field (y_certfile d) '''' (CertFile old),
                 KeyFile = set_field (y_keyfile d) '''' (KeyFile old),
                 CAFile = set_field (y_cafile d) '''' (CAFile old) \<rparr>)"

definition overlay_Config ::
  "(string \<Rightarrow> Duration option) \<Rightarrow> clair_doc \<Rightarrow> Config \<Rightarrow> Config option" where
  "overlay_Config pd d old =
     (case (set_pointer overlay_updater zero_UpdaterConfig (y_updater d) (Updater old),
            set_pointer (overlay_notifier pd) zero_NotificationConfig (y_notifier d) (Notifier old),
            set_pointer (overlay_api pd) zero_APIConfig (y_api d) (API old)) of
        (Some u, Some n, Some a) \<Rightarrow>
          Some \<lparr> Database =
                   (case y_database d of
                      Absent \<Rightarrow> Database old
                    | Null \<Rightarrow> zero_RegistrableComponentConfig
                    | Given dd \<Rightarrow> overlay_database dd (Database old)),
                 Updater = u, Notifier = n, API = a \<rparr>
      | _ \<Rightarrow> None)"

definition overlay_File ::
  "(string \<Rightarrow> Duration option) \<Rightarrow> file_doc \<Rightarrow> File \<Rightarrow> File option" where
  "overlay_File pd d old =
     (case y_clair d of
        Absent \<Rightarrow> Some old
      | Null \<Rightarrow> Some \<lparr> Clair = zero_Config \<rparr>
      | Given cd \<Rightarrow> map_option (\<lambda>c. \<lparr> Clair = c \<rparr>) (overlay_Config pd cd (Clair old)))"

text \<open>
  The content \<open>d\<close> is a document that denotes \<open>doc\<close>: decoding it into any value is the
  overlay of \<open>doc\<close> on that value, and fails where the overlay does.
\<close>

definition unmarshals_as :: "world \<Rightarrow> string \<Rightarrow> file_doc \<Rightarrow> bool" where
  "unmarshals_as w d doc =
     (\<forall>cfgFile.
        case overlay_File (time_ParseDuration w) doc cfgFile of
          None \<Rightarrow> (\<exists>m. yaml_Unmarshal w d cfgFile = Inl m)
        | Some cfgFile' \<Rightarrow> yaml_Unmarshal w d cfgFile = Inr cfgFile')"

definition no_database :: database_doc where
  "no_database = \<lparr> y_type = Absent, y_options = Absent \<rparr>"

definition no_updater :: updater_doc where
  "no_updater = \<lparr> y_cron = Absent, y_disabled = Absent \<rparr>"

definition no_notifier :: notifier_doc where
  "no_notifier = \<lparr> y_attempts = Absent, y_renotifyinterval = Absent \<rparr>"

definition no_api :: api_doc where
  "no_api =
     \<lparr> y_port = Absent, y_healthport = Absent, y_timeout = Absent, y_paginationkey = Absent,
       y_certfile = Absent, y_keyfile = Absent, y_cafile = Absent \<rparr>"

definition no_clair :: clair_doc where
  "no_clair = \<lparr> y_database = Absent, y_updater = Absent, y_notifier = Absent, y_api = Absent \<rparr>"

definition api_only :: "api_doc \<Rightarrow> file_doc" where
  "api_only a = \<lparr> y_clair = Given (no_clair\<lparr>y_api := Given a\<rparr>) \<rparr>"

definition port_only :: "int \<Rightarrow> file_doc" where
  "port_only p = api_only (no_api\<lparr>y_port := Given p\<rparr>)"

text \<open>Whether a document gives the block, or all of \<^verbatim>\<open>clair\<close>, with the null value.\<close>

definition nulls_updater :: "file_doc \<Rightarrow> bool" where
  "nulls_updater doc =
     (case y_clair doc of Absent \<Rightarrow> False | Null \<Rightarrow> True | Given cd \<Rightarrow> y_updater cd = Null)"

definition nulls_notifier :: "file_doc \<Rightarrow> bool" where
  "nulls_notifier doc =
     (case y_clair doc of Absent \<Rightarrow> False | Null \<Rightarrow> True | Given cd \<Rightarrow> y_notifier cd = Null)"

text \<open>
  The spec's rule for one key of a document, as a relation between the key, the default
  and the value after loading: ``absent field keeps default, present field replaces''.
  For a duration the document gives a string, and the value is what it parses to.
\<close>

definition overlaid :: "'a yaml_field \<Rightarrow> 'a \<Rightarrow> 'a \<Rightarrow> bool" where
  "overlaid fld dflt v = ((fld = Absent \<longrightarrow> v = dflt) \<and> (\<forall>x. fld = Given x \<longrightarrow> v = x))"

definition overlaid_duration ::
  "(string \<Rightarrow> Duration option) \<Rightarrow> string yaml_field \<Rightarrow> Duration \<Rightarrow> Duration \<Rightarrow> bool" where
  "overlaid_duration pd fld dflt v =
     ((fld = Absent \<longrightarrow> v = dflt) \<and> (\<forall>s. fld = Given s \<longrightarrow> pd s = Some v))"

subsection \<open>An example world\<close>

text \<open>
  A small world on which the functions can be run: a few configuration files and a
  directory under \<^verbatim>\<open>/etc/clair\<close>, one environment variable, and a source of randomness
  that delivers a fixed key. Its decoder of documents knows their contents and
  overlays what they denote; everything else is a syntax error.
\<close>

text \<open>
  Modelled from the spec: \<^verbatim>\<open>fernet.DecodeKey\<close> and \<^verbatim>\<open>Key.Encode\<close> are third-party
  code, not under \<^verbatim>\<open>src/\<close>. The spec has the first ``decode the supplied key as URL-safe
  base64 of the expected byte length'' and the second ``encode it in URL-safe base64''.
\<close>

definition spec_DecodeKey :: "string \<Rightarrow> string + Key" where
  "spec_DecodeKey s =
     (case b64url_decode s of
        None \<Rightarrow> Inl ''illegal base64 data''
      | Some bs \<Rightarrow>
          if length bs = 32 then Inr (map of_nat bs) else Inl ''key decodes to wrong size'')"

definition spec_Encode :: "Key \<Rightarrow> string" where
  "spec_Encode k = b64url_encode (map unat k)"

text \<open>
  The part of \<^verbatim>\<open>time.ParseDuration\<close> that the example documents need: an unsigned
  decimal number followed by one unit.
\<close>

definition duration_units :: "(string \<times> Duration) list" where
  "duration_units =
     [(''ns'', Nanosecond), (''us'', Microsecond), (''ms'', Millisecond),
      (''s'', Second), (''m'', Minute), (''h'', Hour)]"

fun decimal :: "string \<Rightarrow> nat \<Rightarrow> nat option" where
  "decimal [] acc = Some acc"
| "decimal (c # cs) acc =
     (case index_of c ''0123456789'' of
        None \<Rightarrow> None
      | Some v \<Rightarrow> decimal cs (10 * acc + v))"

definition example_ParseDuration :: "string \<Rightarrow> Duration option" where
  "example_ParseDuration s =
     (let ds = takeWhile (\<lambda>c. c \<in> set ''0123456789'') s;
          u = dropWhile (\<lambda>c. c \<in> set ''0123456789'') s
      in if ds = [] then None
         else case (decimal ds 0, map_of duration_units u) of
                (Some n, Some unit) \<Rightarrow> Some (int n * unit)
              | _ \<Rightarrow> None)"

definition example_key :: Key where
  "example_key =
     [251, 255, 190, 3, 17, 42, 99, 200, 7, 8, 9, 10, 11, 12, 13, 14,
      15, 16, 255, 0, 128, 64, 32, 16, 8, 4, 2, 1, 77, 88, 99, 111]"

definition example_documents :: "(string \<times> file_doc) list" where
  "example_documents =
     [(''clair: {api: {port: 8080}}'', port_only 8080),
      (''clair: {api: {paginationkey: not-valid-base64!!}}'',
         api_only (no_api\<lparr>y_paginationkey := Given ''not-valid-base64!!''\<rparr>)),
      (''clair: {api: {paginationkey: E1QH6Yw0yUKtCfofdl8D3i-gUQzHQIcc8W4FukmaJdA=}}'',
         api_only (no_api\<lparr>y_paginationkey :=
                            Given ''E1QH6Yw0yUKtCfofdl8D3i-gUQzHQIcc8W4FukmaJdA=''\<rparr>)),
      (''clair: {api: {timeout: 45s}}'', api_only (no_api\<lparr>y_timeout := Given ''45s''\<rparr>)),
      (''clair: {database: ~}'', \<lparr> y_clair = Given (no_clair\<lparr>y_database := Null\<rparr>) \<rparr>),
      (''clair: {updater: ~}'', \<lparr> y_clair = Given (no_clair\<lparr>y_updater := Null\<rparr>) \<rparr>),
      (''clair: {api: ~}'', \<lparr> y_clair = Given (no_clair\<lparr>y_api := Null\<rparr>) \<rparr>),
      (''clair: {api: {paginationkey: 9f3c1a7be2d405860b6e58c1f2a4d3977c10e5ab44d9026f8b31c7e05a9d62f4}}'',
         api_only (no_api\<lparr>y_paginationkey :=
                            Given ''9f3c1a7be2d405860b6e58c1f2a4d3977c10e5ab44d9026f8b31c7e05a9d62f4''\<rparr>))]"

definition example_files :: "(string \<times> nat \<times> (string + string)) list" where
  "example_files =
     [(''/etc/clair/port.yaml'', 3, Inr ''clair: {api: {port: 8080}}''),
      (''/etc/clair/badkey.yaml'', 4, Inr ''clair: {api: {paginationkey: not-valid-base64!!}}''),
      (''/etc/clair/key.yaml'', 5,
         Inr ''clair: {api: {paginationkey: E1QH6Yw0yUKtCfofdl8D3i-gUQzHQIcc8W4FukmaJdA=}}''),
      (''/etc/clair/timeout.yaml'', 6, Inr ''clair: {api: {timeout: 45s}}''),
      (''/etc/clair/nodb.yaml'', 7, Inr ''clair: {database: ~}''),
      (''/etc/clair/noupdater.yaml'', 8, Inr ''clair: {updater: ~}''),
      (''/etc/clair/noapi.yaml'', 9, Inr ''clair: {api: ~}''),
      (''/etc/clair/broken.yaml'', 10, Inr ''clair: [api''),
      (''/etc/clair'', 11, Inl ''read /etc/clair: is a directory''),
      (''/etc/clair/hexkey.yaml'', 12,
         Inr ''clair: {api: {paginationkey: 9f3c1a7be2d405860b6e58c1f2a4d3977c10e5ab44d9026f8b31c7e05a9d62f4}}'')]"

definition example_Open :: "string \<Rightarrow> string + nat" where
  "example_Open name =
     (case map_of example_files name of
        None \<Rightarrow> Inl (''open '' @ name @ '': no such file or directory'')
      | Some (fd, r) \<Rightarrow> Inr fd)"

definition example_ReadAll :: "nat \<Rightarrow> string + string" where
  "example_ReadAll fd =
     (case find (\<lambda>(name, fd', r). fd' = fd) example_files of
        None \<Rightarrow> Inl ''bad file descriptor''
      | Some (name, fd', r) \<Rightarrow> r)"

definition example_Unmarshal :: "string \<Rightarrow> File \<Rightarrow> string + File" where
  "example_Unmarshal d cfgFile =
     (case map_of example_documents d of
        None \<Rightarrow> Inl ''yaml: did not find expected node content''
      | Some doc \<Rightarrow>
          (case overlay_File example_ParseDuration doc cfgFile of
             None \<Rightarrow> Inl ''yaml: unmarshal errors''
           | Some cfgFile' \<Rightarrow> Inr cfgFile'))"

definition example_world :: world where
  "example_world =
     \<lparr> os_ExpandEnv =
         (\<lambda>p. if take 10 p = ''$CLAIR_ETC'' then ''/etc/clair'' @ drop 10 p else p),
       os_Open = example_Open,
       ioutil_ReadAll = example_ReadAll,
       yaml_Unmarshal = example_Unmarshal,
       key_Generate = Inr example_key,
       key_Encode = spec_Encode,
       fernet_DecodeKey = spec_DecodeKey,
       time_ParseDuration = example_ParseDuration \<rparr>"

text \<open>The configs that the example world yields for \<^verbatim>\<open>key.yaml\<close> and \<^verbatim>\<open>port.yaml\<close>.\<close>

definition example_config_key :: Config where
  "example_config_key =
     DefaultConfig\<lparr>API := Some
       \<lparr> Port = 6060, HealthPort = 6061, Timeout = 900000000000,
         PaginationKey = ''E1QH6Yw0yUKtCfofdl8D3i-gUQzHQIcc8W4FukmaJdA='',
         CertFile = '''', KeyFile = '''', CAFile = '''' \<rparr>\<rparr>"

definition example_config_port :: Config where
  "example_config_port =
     DefaultConfig\<lparr>API := Some
       \<lparr> Port = 8080, HealthPort = 6061, Timeout = 900000000000,
         PaginationKey = ''-_--AxEqY8gHCAkKCwwNDg8Q_wCAQCAQCAQCAU1YY28='',
         CertFile = '''', KeyFile = '''', CAFile = '''' \<rparr>\<rparr>"

subsection \<open>A world with a lenient decoder of keys\<close>

text \<open>
  \<^verbatim>\<open>fernet.DecodeKey\<close> is third-party code, not under \<^verbatim>\<open>src/\<close>, and \<^verbatim>\<open>LoadConfig\<close>
  takes whatever it accepts. The decoder of the fernet library documents that a key
  ``can be in hexadecimal, standard base64, or URL-safe base64''. This decoder does so:
  64 characters are read as hexadecimal digits; anything else as standard base64 (the
  alphabet that ends in \<^verbatim>\<open>+\<close> and \<^verbatim>\<open>/\<close>) and, failing that, as URL-safe base64; the
  result must be 32 bytes. The world \<open>lenient_world\<close> is the example world with this
  decoder.
\<close>

definition hex_digit :: "char \<Rightarrow> nat option" where
  "hex_digit c =
     (case index_of c ''0123456789abcdef'' of
        Some v \<Rightarrow> Some v
      | None \<Rightarrow> index_of c ''0123456789ABCDEF'')"

fun hex_decode :: "string \<Rightarrow> nat list option" where
  "hex_decode [] = Some []"
| "hex_decode [c] = None"
| "hex_decode (c1 # c2 # cs) =
     (case (hex_digit c1, hex_digit c2, hex_decode cs) of
        (Some h, Some l, Some bs) \<Rightarrow> Some ((16 * h + l) # bs)
      | _ \<Rightarrow> None)"

definition b64std_decode :: "string \<Rightarrow> nat list option" where
  "b64std_decode s =
     (if CHR ''-'' \<in> set s \<or> CHR ''_'' \<in> set s then None
      else b64url_decode
             (map (\<lambda>c. if c = CHR ''+'' then CHR ''-'' else if c = CHR ''/'' then CHR ''_'' else c) s))"

definition lenient_DecodeKey :: "string \<Rightarrow> string + Key" where
  "lenient_DecodeKey s =
     (if s = '''' then Inl ''empty key''
      else
        case (if length s = 64 then hex_decode s
              else case b64std_decode s of
                     Some bs \<Rightarrow> Some bs
                   | None \<Rightarrow> b64url_decode s) of
          None \<Rightarrow> Inl ''illegal key data''
        | Some bs \<Rightarrow>
            if length bs = 32 then Inr (map of_nat bs) else Inl ''key decodes to wrong size'')"

definition lenient_world :: world where
  "lenient_world = example_world\<lparr>fernet_DecodeKey := lenient_DecodeKey\<rparr>"

section \<open>Properties\<close>

text \<open>
  C2. For the empty path \<^verbatim>\<open>LoadConfig\<close> returns \<^verbatim>\<open>DefaultConfig()\<close> and a nil error,
  in every world, and performs no external effect at all: nothing is expanded, opened,
  read or closed, and no randomness is drawn.
\<close>

theorem LoadConfig_empty_path:
  "LoadConfig w '''' = (Return (Some DefaultConfig) None, [])"
  by (simp add: LoadConfig_def)

subsection \<open>Facts about the example world\<close>

lemmas example_defs =
  example_world_def example_Open_def example_ReadAll_def example_Unmarshal_def
  example_files_def example_documents_def

lemma example_ExpandEnv:
  "os_ExpandEnv example_world ''/etc/clair/missing.yaml'' = ''/etc/clair/missing.yaml''"
  "os_ExpandEnv example_world ''/etc/clair'' = ''/etc/clair''"
  "os_ExpandEnv example_world ''/etc/clair/broken.yaml'' = ''/etc/clair/broken.yaml''"
  "os_ExpandEnv example_world ''/etc/clair/port.yaml'' = ''/etc/clair/port.yaml''"
  "os_ExpandEnv example_world ''$CLAIR_ETC/badkey.yaml'' = ''/etc/clair/badkey.yaml''"
  "os_ExpandEnv example_world ''/etc/clair/key.yaml'' = ''/etc/clair/key.yaml''"
  "os_ExpandEnv example_world ''/etc/clair/timeout.yaml'' = ''/etc/clair/timeout.yaml''"
  "os_ExpandEnv example_world ''/etc/clair/nodb.yaml'' = ''/etc/clair/nodb.yaml''"
  "os_ExpandEnv example_world ''/etc/clair/noupdater.yaml'' = ''/etc/clair/noupdater.yaml''"
  by (simp_all add: example_world_def)

lemma example_Open:
  "os_Open example_world ''/etc/clair/missing.yaml'' =
     Inl ''open /etc/clair/missing.yaml: no such file or directory''"
  "os_Open example_world ''/etc/clair'' = Inr 11"
  "os_Open example_world ''/etc/clair/broken.yaml'' = Inr 10"
  "os_Open example_world ''/etc/clair/port.yaml'' = Inr 3"
  "os_Open example_world ''/etc/clair/badkey.yaml'' = Inr 4"
  "os_Open example_world ''/etc/clair/key.yaml'' = Inr 5"
  "os_Open example_world ''/etc/clair/timeout.yaml'' = Inr 6"
  "os_Open example_world ''/etc/clair/nodb.yaml'' = Inr 7"
  "os_Open example_world ''/etc/clair/noupdater.yaml'' = Inr 8"
  by (simp_all add: example_defs)

lemma example_ReadAll:
  "ioutil_ReadAll example_world 11 = Inl ''read /etc/clair: is a directory''"
  "ioutil_ReadAll example_world 10 = Inr ''clair: [api''"
  "ioutil_ReadAll example_world 3 = Inr ''clair: {api: {port: 8080}}''"
  "ioutil_ReadAll example_world 4 = Inr ''clair: {api: {paginationkey: not-valid-base64!!}}''"
  "ioutil_ReadAll example_world 5 =
     Inr ''clair: {api: {paginationkey: E1QH6Yw0yUKtCfofdl8D3i-gUQzHQIcc8W4FukmaJdA=}}''"
  "ioutil_ReadAll example_world 6 = Inr ''clair: {api: {timeout: 45s}}''"
  "ioutil_ReadAll example_world 7 = Inr ''clair: {database: ~}''"
  "ioutil_ReadAll example_world 8 = Inr ''clair: {updater: ~}''"
  by (simp_all add: example_defs)

lemma example_unmarshals_as:
  "unmarshals_as example_world ''clair: {api: {port: 8080}}'' (port_only 8080)"
  "unmarshals_as example_world ''clair: {api: {paginationkey: not-valid-base64!!}}''
     (api_only (no_api\<lparr>y_paginationkey := Given ''not-valid-base64!!''\<rparr>))"
  "unmarshals_as example_world
     ''clair: {api: {paginationkey: E1QH6Yw0yUKtCfofdl8D3i-gUQzHQIcc8W4FukmaJdA=}}''
     (api_only (no_api\<lparr>y_paginationkey := Given ''E1QH6Yw0yUKtCfofdl8D3i-gUQzHQIcc8W4FukmaJdA=''\<rparr>))"
  "unmarshals_as example_world ''clair: {api: {timeout: 45s}}''
     (api_only (no_api\<lparr>y_timeout := Given ''45s''\<rparr>))"
  "unmarshals_as example_world ''clair: {database: ~}''
     \<lparr> y_clair = Given (no_clair\<lparr>y_database := Null\<rparr>) \<rparr>"
  "unmarshals_as example_world ''clair: {updater: ~}''
     \<lparr> y_clair = Given (no_clair\<lparr>y_updater := Null\<rparr>) \<rparr>"
  by (simp_all add: unmarshals_as_def example_defs split: option.splits)

lemma example_Unmarshal_broken:
  "yaml_Unmarshal example_world ''clair: [api'' cfgFile =
     Inl ''yaml: did not find expected node content''"
  by (simp add: example_defs)

lemma example_ParseDuration_45s:
  "time_ParseDuration example_world ''45s'' = Some 45000000000"
  by (simp add: example_world_def example_ParseDuration_def duration_units_def
      Second_def Millisecond_def Microsecond_def Nanosecond_def)

lemma example_Encode:
  "key_Encode example_world example_key = ''-_--AxEqY8gHCAkKCwwNDg8Q_wCAQCAQCAQCAU1YY28=''"
  by (simp add: example_world_def spec_Encode_def example_key_def sextet_char_def
      urlsafe_alphabet_def)

lemma example_Generate: "key_Generate example_world = Inr example_key"
  by (simp add: example_world_def)

lemmas b64url_defs =
  valid_pagination_key_def decode_quantum_def decode_final_def char_sextet_def
  urlsafe_alphabet_def

lemma valid_example_keys:
  "valid_pagination_key ''-_--AxEqY8gHCAkKCwwNDg8Q_wCAQCAQCAQCAU1YY28=''"
  "valid_pagination_key ''E1QH6Yw0yUKtCfofdl8D3i-gUQzHQIcc8W4FukmaJdA=''"
  "\<not> valid_pagination_key ''not-valid-base64!!''"
  "\<not> valid_pagination_key ''''"
  by (simp_all add: b64url_defs)

lemma spec_DecodeKey_valid: "spec_DecodeKey s = Inr k \<Longrightarrow> valid_pagination_key s"
  by (simp add: spec_DecodeKey_def valid_pagination_key_def split: option.splits if_splits)

lemma spec_DecodeKey_invalid: "\<not> valid_pagination_key s \<Longrightarrow> \<exists>m. spec_DecodeKey s = Inl m"
  by (auto simp: spec_DecodeKey_def valid_pagination_key_def split: option.splits)

lemma example_DecodeKey_valid:
  "fernet_DecodeKey example_world s = Inr k \<Longrightarrow> valid_pagination_key s"
  by (simp add: example_world_def spec_DecodeKey_valid)

subsection \<open>Facts about the pagination-key step and the overlay\<close>

lemma library_error_not_ErrDatasourceNotLoaded:
  "OpenError m \<noteq> ErrDatasourceNotLoaded" "ReadError m \<noteq> ErrDatasourceNotLoaded"
  "UnmarshalError m \<noteq> ErrDatasourceNotLoaded" "GenerateError m \<noteq> ErrDatasourceNotLoaded"
  by (simp_all add: ErrDatasourceNotLoaded_def)

lemma pagination_key_step_not_ErrDatasourceNotLoaded:
  "pagination_key_step w c \<noteq> (Return r (Some ErrDatasourceNotLoaded), evs)"
  by (simp add: pagination_key_step_def ErrDatasourceNotLoaded_def
      split: option.splits sum.splits)

lemma pagination_key_step_with_database:
  "returned_error (fst (pagination_key_step (with_database db w) (c\<lparr>Database := db\<rparr>))) =
   returned_error (fst (pagination_key_step w c))"
  by (simp add: pagination_key_step_def with_database_def split: option.splits sum.splits)

lemma pagination_key_step_error:
  "pagination_key_step w c = (Return r (Some e), evs) \<Longrightarrow>
     r = Some c \<and> \<not> is_IOError e \<and> \<not> is_ParseError e \<and>
     (is_KeyGenerationError e \<or> is_ValidationError e)"
  by (auto simp: pagination_key_step_def ErrDatasourceNotLoaded_def
      split: option.splits sum.splits if_splits)


subsection \<open>Runs of \<^verbatim>\<open>LoadConfig\<close> in the example world\<close>

lemmas overlay_defs =
  overlay_File_def overlay_Config_def overlay_api_def overlay_notifier_def overlay_updater_def
  overlay_database_def set_pointer_def set_field_def set_duration_def
  api_only_def port_only_def no_api_def no_clair_def

lemmas default_defs =
  DefaultConfig_def Hour_def Minute_def Second_def Millisecond_def Microsecond_def Nanosecond_def

lemmas run_defs =
  LoadConfig_def Let_def pagination_key_step_def example_ExpandEnv example_Open example_ReadAll
  example_Generate example_Encode

lemma example_Unmarshal_default:
  "yaml_Unmarshal example_world ''clair: {api: {port: 8080}}'' \<lparr>Clair = DefaultConfig\<rparr> =
     Inr \<lparr>Clair = DefaultConfig\<lparr>API := map_option (Port_update (\<lambda>_. 8080)) (API DefaultConfig)\<rparr>\<rparr>"
  "yaml_Unmarshal example_world ''clair: {api: {paginationkey: not-valid-base64!!}}''
       \<lparr>Clair = DefaultConfig\<rparr> =
     Inr \<lparr>Clair = DefaultConfig\<lparr>API :=
       map_option (PaginationKey_update (\<lambda>_. ''not-valid-base64!!'')) (API DefaultConfig)\<rparr>\<rparr>"
  "yaml_Unmarshal example_world
       ''clair: {api: {paginationkey: E1QH6Yw0yUKtCfofdl8D3i-gUQzHQIcc8W4FukmaJdA=}}''
       \<lparr>Clair = DefaultConfig\<rparr> =
     Inr \<lparr>Clair = DefaultConfig\<lparr>API :=
       map_option (PaginationKey_update (\<lambda>_. ''E1QH6Yw0yUKtCfofdl8D3i-gUQzHQIcc8W4FukmaJdA=''))
         (API DefaultConfig)\<rparr>\<rparr>"
  "yaml_Unmarshal example_world ''clair: {api: {timeout: 45s}}'' \<lparr>Clair = DefaultConfig\<rparr> =
     Inr \<lparr>Clair = DefaultConfig\<lparr>API :=
       map_option (Timeout_update (\<lambda>_. 45000000000)) (API DefaultConfig)\<rparr>\<rparr>"
  "yaml_Unmarshal example_world ''clair: {database: ~}'' \<lparr>Clair = DefaultConfig\<rparr> =
     Inr \<lparr>Clair = DefaultConfig\<lparr>Database := \<lparr>Type = '''', Options = []\<rparr>\<rparr>\<rparr>"
  "yaml_Unmarshal example_world ''clair: {updater: ~}'' \<lparr>Clair = DefaultConfig\<rparr> =
     Inr \<lparr>Clair = DefaultConfig\<lparr>Updater := None\<rparr>\<rparr>"
  by (simp_all add: example_defs overlay_defs DefaultConfig_def example_ParseDuration_def
      duration_units_def Second_def Millisecond_def Microsecond_def Nanosecond_def
      zero_RegistrableComponentConfig_def)

lemma example_DecodeKey:
  "fernet_DecodeKey example_world ''not-valid-base64!!'' = Inl ''illegal base64 data''"
  "fernet_DecodeKey example_world ''E1QH6Yw0yUKtCfofdl8D3i-gUQzHQIcc8W4FukmaJdA='' =
     Inr [19, 84, 7, 233, 140, 52, 201, 66, 173, 9, 250, 31, 118, 95, 3, 222,
          47, 160, 81, 12, 199, 64, 135, 28, 241, 110, 5, 186, 73, 154, 37, 208]"
  by (simp_all add: example_world_def spec_DecodeKey_def b64url_defs)

lemma example_run_missing:
  "LoadConfig example_world ''/etc/clair/missing.yaml'' =
     (Return None (Some (OpenError ''open /etc/clair/missing.yaml: no such file or directory'')),
      [EvExpandEnv ''/etc/clair/missing.yaml'', EvOpen ''/etc/clair/missing.yaml''])"
  by (simp add: run_defs)

lemma example_run_directory:
  "LoadConfig example_world ''/etc/clair'' =
     (Return None (Some (ReadError ''read /etc/clair: is a directory'')),
      [EvExpandEnv ''/etc/clair'', EvOpen ''/etc/clair'', EvReadAll 11, EvClose 11])"
  by (simp add: run_defs)

lemma example_run_broken:
  "LoadConfig example_world ''/etc/clair/broken.yaml'' =
     (Return None (Some (UnmarshalError ''yaml: did not find expected node content'')),
      [EvExpandEnv ''/etc/clair/broken.yaml'', EvOpen ''/etc/clair/broken.yaml'',
       EvReadAll 10, EvClose 10])"
  by (simp add: run_defs example_Unmarshal_broken)

lemma example_run_port:
  "LoadConfig example_world ''/etc/clair/port.yaml'' =
     (Return (Some (DefaultConfig\<lparr>API := Some
         \<lparr> Port = 8080, HealthPort = 6061, Timeout = 900000000000,
           PaginationKey = ''-_--AxEqY8gHCAkKCwwNDg8Q_wCAQCAQCAQCAU1YY28='',
           CertFile = '''', KeyFile = '''', CAFile = '''' \<rparr>\<rparr>)) None,
      [EvExpandEnv ''/etc/clair/port.yaml'', EvOpen ''/etc/clair/port.yaml'',
       EvReadAll 3, EvRandRead, EvClose 3])"
  by (simp add: run_defs example_Unmarshal_default)
     (simp add: default_defs example_Generate example_Encode example_DecodeKey)

lemma example_run_badkey:
  "LoadConfig example_world ''$CLAIR_ETC/badkey.yaml'' =
     (Return (Some (DefaultConfig\<lparr>API := Some
         \<lparr> Port = 6060, HealthPort = 6061, Timeout = 900000000000,
           PaginationKey = ''not-valid-base64!!'',
           CertFile = '''', KeyFile = '''', CAFile = '''' \<rparr>\<rparr>))
        (Some (ErrorsNew ''invalid Pagination key; must be 32-bit URL-safe base64'')),
      [EvExpandEnv ''$CLAIR_ETC/badkey.yaml'', EvOpen ''/etc/clair/badkey.yaml'',
       EvReadAll 4, EvClose 4])"
  by (simp add: run_defs example_Unmarshal_default example_DecodeKey)
     (simp add: default_defs example_Generate example_Encode example_DecodeKey)

lemma example_run_key:
  "LoadConfig example_world ''/etc/clair/key.yaml'' =
     (Return (Some (DefaultConfig\<lparr>API := Some
         \<lparr> Port = 6060, HealthPort = 6061, Timeout = 900000000000,
           PaginationKey = ''E1QH6Yw0yUKtCfofdl8D3i-gUQzHQIcc8W4FukmaJdA='',
           CertFile = '''', KeyFile = '''', CAFile = '''' \<rparr>\<rparr>)) None,
      [EvExpandEnv ''/etc/clair/key.yaml'', EvOpen ''/etc/clair/key.yaml'',
       EvReadAll 5, EvClose 5])"
  by (simp add: run_defs example_Unmarshal_default example_DecodeKey)
     (simp add: default_defs example_Generate example_Encode example_DecodeKey)

lemma example_run_timeout:
  "LoadConfig example_world ''/etc/clair/timeout.yaml'' =
     (Return (Some (DefaultConfig\<lparr>API := Some
         \<lparr> Port = 6060, HealthPort = 6061, Timeout = 45000000000,
           PaginationKey = ''-_--AxEqY8gHCAkKCwwNDg8Q_wCAQCAQCAQCAU1YY28='',
           CertFile = '''', KeyFile = '''', CAFile = '''' \<rparr>\<rparr>)) None,
      [EvExpandEnv ''/etc/clair/timeout.yaml'', EvOpen ''/etc/clair/timeout.yaml'',
       EvReadAll 6, EvRandRead, EvClose 6])"
  by (simp add: run_defs example_Unmarshal_default)
     (simp add: default_defs example_Generate example_Encode example_DecodeKey)

lemma example_run_nodb:
  "LoadConfig example_world ''/etc/clair/nodb.yaml'' =
     (Return (Some (DefaultConfig\<lparr>Database := \<lparr>Type = '''', Options = []\<rparr>, API := Some
         \<lparr> Port = 6060, HealthPort = 6061, Timeout = 900000000000,
           PaginationKey = ''-_--AxEqY8gHCAkKCwwNDg8Q_wCAQCAQCAQCAU1YY28='',
           CertFile = '''', KeyFile = '''', CAFile = '''' \<rparr>\<rparr>)) None,
      [EvExpandEnv ''/etc/clair/nodb.yaml'', EvOpen ''/etc/clair/nodb.yaml'',
       EvReadAll 7, EvRandRead, EvClose 7])"
  by (simp add: run_defs example_Unmarshal_default)
     (simp add: default_defs example_Generate example_Encode example_DecodeKey)

lemma example_run_noupdater:
  "LoadConfig example_world ''/etc/clair/noupdater.yaml'' =
     (Return (Some (DefaultConfig\<lparr>Updater := None, API := Some
         \<lparr> Port = 6060, HealthPort = 6061, Timeout = 900000000000,
           PaginationKey = ''-_--AxEqY8gHCAkKCwwNDg8Q_wCAQCAQCAQCAU1YY28='',
           CertFile = '''', KeyFile = '''', CAFile = '''' \<rparr>\<rparr>)) None,
      [EvExpandEnv ''/etc/clair/noupdater.yaml'', EvOpen ''/etc/clair/noupdater.yaml'',
       EvReadAll 8, EvRandRead, EvClose 8])"
  by (simp add: run_defs example_Unmarshal_default)
     (simp add: default_defs example_Generate example_Encode example_DecodeKey)

lemma example_run_noapi:
  "LoadConfig example_world ''/etc/clair/noapi.yaml'' =
     (Panic nil_dereference,
      [EvExpandEnv ''/etc/clair/noapi.yaml'', EvOpen ''/etc/clair/noapi.yaml'',
       EvReadAll 9, EvClose 9])"
  by (simp add: LoadConfig_def Let_def pagination_key_step_def example_defs overlay_defs
      DefaultConfig_def)


subsection \<open>The defaults\<close>

text \<open>
  C6. \<^verbatim>\<open>DefaultConfig\<close> takes no input and reads nothing of the world, so it is one
  fixed value: any two calls are equal field by field. The value is the baseline: store
  type \<^verbatim>\<open>pgsql\<close>, updater schedule \<^verbatim>\<open>@midnight\<close> and not disabled, API port 6060,
  health port 6061, timeout 900 seconds (in nanoseconds), 5 notifier attempts, re-notify
  interval 2 hours (7200 seconds, in nanoseconds), and an empty pagination key.
\<close>

theorem DefaultConfig_baseline:
  "DefaultConfig =
     \<lparr> Database = \<lparr> Type = ''pgsql'', Options = [] \<rparr>,
       Updater = Some \<lparr> Cron = ''@midnight'', Disabled = False \<rparr>,
       Notifier = Some \<lparr> Attempts = 5, RenotifyInterval = 7200 * 1000000000 \<rparr>,
       API = Some \<lparr> Port = 6060, HealthPort = 6061, Timeout = 900 * 1000000000,
                    PaginationKey = [], CertFile = [], KeyFile = [], CAFile = [] \<rparr> \<rparr>"
  by (simp add: default_defs)

subsection \<open>Errors\<close>

text \<open>
  C7. No call of \<^verbatim>\<open>LoadConfig\<close>, for any world and any path, returns
  \<^verbatim>\<open>ErrDatasourceNotLoaded\<close>. Nor does the database block take part in the verdict:
  replace the database block that the decoder yields by any other one, the empty one
  included, and the call returns the same error or the same nil error, or panics as
  before.
\<close>

theorem LoadConfig_never_ErrDatasourceNotLoaded:
  "fst (LoadConfig w path) \<noteq> Return c (Some ErrDatasourceNotLoaded) \<and>
   returned_error (fst (LoadConfig (with_database db w) path)) =
     returned_error (fst (LoadConfig w path))"
proof
  show "fst (LoadConfig w path) \<noteq> Return c (Some ErrDatasourceNotLoaded)"
    by (auto simp: LoadConfig_def Let_def library_error_not_ErrDatasourceNotLoaded
        pagination_key_step_not_ErrDatasourceNotLoaded split: sum.splits prod.splits)
next
  show "returned_error (fst (LoadConfig (with_database db w) path)) =
     returned_error (fst (LoadConfig w path))"
  proof (cases "path = []")
    case True
    then show ?thesis by (simp add: LoadConfig_def)
  next
    case False
    have sel: "os_ExpandEnv (with_database db w) = os_ExpandEnv w"
      "os_Open (with_database db w) = os_Open w"
      "ioutil_ReadAll (with_database db w) = ioutil_ReadAll w"
      by (simp_all add: with_database_def)
    have um: "yaml_Unmarshal (with_database db w) d f =
        map_sum id (\<lambda>f'. f'\<lparr>Clair := (Clair f')\<lparr>Database := db\<rparr>\<rparr>) (yaml_Unmarshal w d f)" for d f
      by (simp add: with_database_def)
    show ?thesis
      using pagination_key_step_with_database [of db w]
      by (auto simp: LoadConfig_def Let_def sel um split: sum.splits prod.splits)
         (metis fst_conv)
  qed
qed

text \<open>
  C8. For a non-empty path: a failed open ends the call with the error of \<^verbatim>\<open>os.Open\<close>
  after that one attempt; a failed read ends it with the error of \<^verbatim>\<open>ioutil.ReadAll\<close>
  after one open, one read and the close; a failed decoding ends it with the error of
  \<^verbatim>\<open>yaml.Unmarshal\<close>, nothing but the close following. A returned error is an IOError
  exactly when the open or the read failed and a ParseError exactly when the decoding
  failed. The call returns a nil error exactly when open, read and decoding succeed, the
  API block is set, and the pagination-key step succeeds (the key is generated, or the
  supplied one is accepted by the decoder of keys).
\<close>

theorem LoadConfig_error_classification:
  assumes "path \<noteq> ''''"
  shows "(\<forall>m. os_Open w (os_ExpandEnv w path) = Inl m \<longrightarrow>
            LoadConfig w path =
              (Return None (Some (OpenError m)),
               [EvExpandEnv path, EvOpen (os_ExpandEnv w path)])) \<and>
         (\<forall>f m. os_Open w (os_ExpandEnv w path) = Inr f \<and> ioutil_ReadAll w f = Inl m \<longrightarrow>
            LoadConfig w path =
              (Return None (Some (ReadError m)),
               [EvExpandEnv path, EvOpen (os_ExpandEnv w path), EvReadAll f, EvClose f])) \<and>
         (\<forall>f d m. os_Open w (os_ExpandEnv w path) = Inr f \<and> ioutil_ReadAll w f = Inr d \<and>
              yaml_Unmarshal w d \<lparr>Clair = DefaultConfig\<rparr> = Inl m \<longrightarrow>
            LoadConfig w path =
              (Return None (Some (UnmarshalError m)),
               [EvExpandEnv path, EvOpen (os_ExpandEnv w path), EvReadAll f, EvClose f])) \<and>
         (\<forall>c e evs. LoadConfig w path = (Return c (Some e), evs) \<longrightarrow>
            (is_IOError e \<longleftrightarrow>
               (\<exists>m. os_Open w (os_ExpandEnv w path) = Inl m) \<or>
               (\<exists>f m. os_Open w (os_ExpandEnv w path) = Inr f \<and> ioutil_ReadAll w f = Inl m)) \<and>
            (is_ParseError e \<longleftrightarrow>
               (\<exists>f d m. os_Open w (os_ExpandEnv w path) = Inr f \<and> ioutil_ReadAll w f = Inr d \<and>
                  yaml_Unmarshal w d \<lparr>Clair = DefaultConfig\<rparr> = Inl m))) \<and>
         ((\<exists>c evs. LoadConfig w path = (Return c None, evs)) \<longleftrightarrow>
            (\<exists>f d cf api. os_Open w (os_ExpandEnv w path) = Inr f \<and> ioutil_ReadAll w f = Inr d \<and>
               yaml_Unmarshal w d \<lparr>Clair = DefaultConfig\<rparr> = Inr cf \<and>
               API (Clair cf) = Some api \<and>
               (if PaginationKey api = ''''
                then \<exists>k. key_Generate w = Inr k
                else \<exists>k. fernet_DecodeKey w (PaginationKey api) = Inr k)))"
proof (intro conjI allI impI)
  fix m assume "os_Open w (os_ExpandEnv w path) = Inl m"
  with assms show "LoadConfig w path =
      (Return None (Some (OpenError m)), [EvExpandEnv path, EvOpen (os_ExpandEnv w path)])"
    by (simp add: LoadConfig_def)
next
  fix f m assume "os_Open w (os_ExpandEnv w path) = Inr f \<and> ioutil_ReadAll w f = Inl m"
  with assms show "LoadConfig w path =
      (Return None (Some (ReadError m)),
       [EvExpandEnv path, EvOpen (os_ExpandEnv w path), EvReadAll f, EvClose f])"
    by (simp add: LoadConfig_def)
next
  fix f d m
  assume "os_Open w (os_ExpandEnv w path) = Inr f \<and> ioutil_ReadAll w f = Inr d \<and>
              yaml_Unmarshal w d \<lparr>Clair = DefaultConfig\<rparr> = Inl m"
  with assms show "LoadConfig w path =
      (Return None (Some (UnmarshalError m)),
       [EvExpandEnv path, EvOpen (os_ExpandEnv w path), EvReadAll f, EvClose f])"
    by (simp add: LoadConfig_def)
next
  fix c e evs assume r: "LoadConfig w path = (Return c (Some e), evs)"
  from r assms show "is_IOError e \<longleftrightarrow>
               (\<exists>m. os_Open w (os_ExpandEnv w path) = Inl m) \<or>
               (\<exists>f m. os_Open w (os_ExpandEnv w path) = Inr f \<and> ioutil_ReadAll w f = Inl m)"
    by (auto simp: LoadConfig_def Let_def split: sum.splits prod.splits
        dest: pagination_key_step_error)
  from r assms show "is_ParseError e \<longleftrightarrow>
               (\<exists>f d m. os_Open w (os_ExpandEnv w path) = Inr f \<and> ioutil_ReadAll w f = Inr d \<and>
                  yaml_Unmarshal w d \<lparr>Clair = DefaultConfig\<rparr> = Inl m)"
    by (auto simp: LoadConfig_def Let_def split: sum.splits prod.splits
        dest: pagination_key_step_error)
next
  from assms show "(\<exists>c evs. LoadConfig w path = (Return c None, evs)) \<longleftrightarrow>
            (\<exists>f d cf api. os_Open w (os_ExpandEnv w path) = Inr f \<and> ioutil_ReadAll w f = Inr d \<and>
               yaml_Unmarshal w d \<lparr>Clair = DefaultConfig\<rparr> = Inr cf \<and>
               API (Clair cf) = Some api \<and>
               (if PaginationKey api = ''''
                then \<exists>k. key_Generate w = Inr k
                else \<exists>k. fernet_DecodeKey w (PaginationKey api) = Inr k))"
    by (auto simp: LoadConfig_def Let_def pagination_key_step_def
        split: sum.splits prod.splits option.splits if_splits)
qed

theorem LoadConfig_error_classification_witness:
  "LoadConfig example_world ''/etc/clair/missing.yaml'' =
     (Return None (Some (OpenError ''open /etc/clair/missing.yaml: no such file or directory'')),
      [EvExpandEnv ''/etc/clair/missing.yaml'', EvOpen ''/etc/clair/missing.yaml'']) \<and>
   LoadConfig example_world ''/etc/clair'' =
     (Return None (Some (ReadError ''read /etc/clair: is a directory'')),
      [EvExpandEnv ''/etc/clair'', EvOpen ''/etc/clair'', EvReadAll 11, EvClose 11]) \<and>
   LoadConfig example_world ''/etc/clair/broken.yaml'' =
     (Return None (Some (UnmarshalError ''yaml: did not find expected node content'')),
      [EvExpandEnv ''/etc/clair/broken.yaml'', EvOpen ''/etc/clair/broken.yaml'',
       EvReadAll 10, EvClose 10]) \<and>
   (\<exists>c evs. LoadConfig example_world ''/etc/clair/key.yaml'' = (Return c None, evs))"
proof (intro conjI)
  have "''/etc/clair/missing.yaml'' \<noteq> ''''" by simp
  from LoadConfig_error_classification [OF this, of example_world]
  show "LoadConfig example_world ''/etc/clair/missing.yaml'' =
     (Return None (Some (OpenError ''open /etc/clair/missing.yaml: no such file or directory'')),
      [EvExpandEnv ''/etc/clair/missing.yaml'', EvOpen ''/etc/clair/missing.yaml''])"
    by (simp add: example_ExpandEnv example_Open)
next
  have "''/etc/clair'' \<noteq> ''''" by simp
  from LoadConfig_error_classification [OF this, of example_world]
  show "LoadConfig example_world ''/etc/clair'' =
     (Return None (Some (ReadError ''read /etc/clair: is a directory'')),
      [EvExpandEnv ''/etc/clair'', EvOpen ''/etc/clair'', EvReadAll 11, EvClose 11])"
    by (simp add: example_ExpandEnv example_Open example_ReadAll)
next
  have "''/etc/clair/broken.yaml'' \<noteq> ''''" by simp
  from LoadConfig_error_classification [OF this, of example_world]
  show "LoadConfig example_world ''/etc/clair/broken.yaml'' =
     (Return None (Some (UnmarshalError ''yaml: did not find expected node content'')),
      [EvExpandEnv ''/etc/clair/broken.yaml'', EvOpen ''/etc/clair/broken.yaml'',
       EvReadAll 10, EvClose 10])"
    by (simp add: example_ExpandEnv example_Open example_ReadAll example_Unmarshal_broken)
next
  have ne: "''/etc/clair/key.yaml'' \<noteq> ''''" by simp
  have ok: "\<exists>f d cf api.
      os_Open example_world (os_ExpandEnv example_world ''/etc/clair/key.yaml'') = Inr f \<and>
      ioutil_ReadAll example_world f = Inr d \<and>
      yaml_Unmarshal example_world d \<lparr>Clair = DefaultConfig\<rparr> = Inr cf \<and>
      API (Clair cf) = Some api \<and>
      (if PaginationKey api = ''''
       then \<exists>k. key_Generate example_world = Inr k
       else \<exists>k. fernet_DecodeKey example_world (PaginationKey api) = Inr k)"
    by (simp add: example_ExpandEnv example_Open example_ReadAll example_Unmarshal_default)
       (auto simp: DefaultConfig_def example_DecodeKey)
  from LoadConfig_error_classification [OF ne, of example_world] ok
  show "\<exists>c evs. LoadConfig example_world ''/etc/clair/key.yaml'' = (Return c None, evs)"
    by blast
qed

text \<open>
  C10. Whenever \<^verbatim>\<open>LoadConfig\<close> returns an error, the error is of one of the four
  classes. With an error of the open, the read or the decoding, the returned config is
  nil. With an error of the pagination-key step (the key could not be generated, or the
  supplied key was refused) the returned config is not nil: it is the config that
  \<^verbatim>\<open>yaml.Unmarshal\<close> left behind, unchanged.
\<close>

theorem LoadConfig_config_on_error:
  assumes "LoadConfig w path = (Return c (Some e), evs)"
  shows "(is_IOError e \<or> is_ParseError e \<longrightarrow> c = None) \<and>
         (is_KeyGenerationError e \<or> is_ValidationError e \<longrightarrow>
            (\<exists>f d cf. os_Open w (os_ExpandEnv w path) = Inr f \<and> ioutil_ReadAll w f = Inr d \<and>
               yaml_Unmarshal w d \<lparr>Clair = DefaultConfig\<rparr> = Inr cf \<and> c = Some (Clair cf))) \<and>
         (is_IOError e \<or> is_ParseError e \<or> is_KeyGenerationError e \<or> is_ValidationError e)"
  using assms
  by (auto simp: LoadConfig_def Let_def split: sum.splits prod.splits if_splits
      dest: pagination_key_step_error)

theorem LoadConfig_config_on_error_witness:
  "LoadConfig example_world ''$CLAIR_ETC/badkey.yaml'' =
     (Return (Some (DefaultConfig\<lparr>API := Some
         \<lparr> Port = 6060, HealthPort = 6061, Timeout = 900000000000,
           PaginationKey = ''not-valid-base64!!'',
           CertFile = '''', KeyFile = '''', CAFile = '''' \<rparr>\<rparr>))
        (Some (ErrorsNew ''invalid Pagination key; must be 32-bit URL-safe base64'')),
      [EvExpandEnv ''$CLAIR_ETC/badkey.yaml'', EvOpen ''/etc/clair/badkey.yaml'',
       EvReadAll 4, EvClose 4]) \<and>
   is_ValidationError (ErrorsNew ''invalid Pagination key; must be 32-bit URL-safe base64'') \<and>
   (\<exists>f d cf.
      os_Open example_world (os_ExpandEnv example_world ''$CLAIR_ETC/badkey.yaml'') = Inr f \<and>
      ioutil_ReadAll example_world f = Inr d \<and>
      yaml_Unmarshal example_world d \<lparr>Clair = DefaultConfig\<rparr> = Inr cf \<and>
      Some (DefaultConfig\<lparr>API := Some
         \<lparr> Port = 6060, HealthPort = 6061, Timeout = 900000000000,
           PaginationKey = ''not-valid-base64!!'',
           CertFile = '''', KeyFile = '''', CAFile = '''' \<rparr>\<rparr>) = Some (Clair cf)) \<and>
   LoadConfig example_world ''/etc/clair/missing.yaml'' =
     (Return None (Some (OpenError ''open /etc/clair/missing.yaml: no such file or directory'')),
      [EvExpandEnv ''/etc/clair/missing.yaml'', EvOpen ''/etc/clair/missing.yaml'']) \<and>
   is_IOError (OpenError ''open /etc/clair/missing.yaml: no such file or directory'')"
proof -
  have v: "is_ValidationError (ErrorsNew ''invalid Pagination key; must be 32-bit URL-safe base64'')"
    by (simp add: ErrDatasourceNotLoaded_def)
  have i: "is_IOError (OpenError ''open /etc/clair/missing.yaml: no such file or directory'')"
    by simp
  from LoadConfig_config_on_error [OF example_run_badkey] v i
    example_run_badkey example_run_missing
  show ?thesis by blast
qed


subsection \<open>The pagination key\<close>

lemma LoadConfig_after_Unmarshal:
  assumes "path \<noteq> ''''" and "os_Open w (os_ExpandEnv w path) = Inr f"
    and "ioutil_ReadAll w f = Inr d"
    and "yaml_Unmarshal w d \<lparr>Clair = DefaultConfig\<rparr> = Inr cf"
  shows "LoadConfig w path =
     (fst (pagination_key_step w (Clair cf)),
      [EvExpandEnv path, EvOpen (os_ExpandEnv w path), EvReadAll f] @
        snd (pagination_key_step w (Clair cf)) @ [EvClose f])"
  using assms by (simp add: LoadConfig_def Let_def split: prod.splits)

lemma LoadConfig_Return_Some:
  assumes "path \<noteq> ''''" and "LoadConfig w path = (Return (Some c) e, evs)"
  shows "\<exists>f d cf evs'. os_Open w (os_ExpandEnv w path) = Inr f \<and> ioutil_ReadAll w f = Inr d \<and>
           yaml_Unmarshal w d \<lparr>Clair = DefaultConfig\<rparr> = Inr cf \<and>
           pagination_key_step w (Clair cf) = (Return (Some c) e, evs')"
  using assms by (auto simp: LoadConfig_def Let_def split: sum.splits prod.splits)

lemma pagination_key_step_Return:
  assumes "pagination_key_step w c0 = (Return (Some c) e, evs)"
  shows "\<exists>api0. API c0 = Some api0 \<and>
           (if PaginationKey api0 = ''''
            then (e = None \<and> (\<exists>k. key_Generate w = Inr k \<and>
                     c = c0\<lparr>API := Some (api0\<lparr>PaginationKey := key_Encode w k\<rparr>)\<rparr>)) \<or>
                 ((\<exists>m. key_Generate w = Inl m \<and> e = Some (GenerateError m)) \<and> c = c0)
            else c = c0 \<and>
                 ((e = None \<and> (\<exists>k. fernet_DecodeKey w (PaginationKey api0) = Inr k)) \<or>
                  ((\<exists>m. fernet_DecodeKey w (PaginationKey api0) = Inl m) \<and>
                   e = Some (ErrorsNew ''invalid Pagination key; must be 32-bit URL-safe base64''))))"
  using assms
  by (auto simp: pagination_key_step_def split: option.splits sum.splits if_splits)

lemma lenient_world_fields:
  "os_ExpandEnv lenient_world = os_ExpandEnv example_world"
  "os_Open lenient_world = os_Open example_world"
  "ioutil_ReadAll lenient_world = ioutil_ReadAll example_world"
  "yaml_Unmarshal lenient_world = yaml_Unmarshal example_world"
  "fernet_DecodeKey lenient_world = lenient_DecodeKey"
  by (simp_all add: lenient_world_def)

lemma lenient_DecodeKey_hex:
  "\<exists>k. lenient_DecodeKey ''9f3c1a7be2d405860b6e58c1f2a4d3977c10e5ab44d9026f8b31c7e05a9d62f4'' = Inr k"
  by (simp add: lenient_DecodeKey_def hex_digit_def)

lemma lenient_run_hexkey:
  "LoadConfig lenient_world ''/etc/clair/hexkey.yaml'' =
     (Return (Some (DefaultConfig\<lparr>API := Some
         \<lparr> Port = 6060, HealthPort = 6061, Timeout = 900000000000,
           PaginationKey = ''9f3c1a7be2d405860b6e58c1f2a4d3977c10e5ab44d9026f8b31c7e05a9d62f4'',
           CertFile = '''', KeyFile = '''', CAFile = '''' \<rparr>\<rparr>)) None,
      [EvExpandEnv ''/etc/clair/hexkey.yaml'', EvOpen ''/etc/clair/hexkey.yaml'',
       EvReadAll 12, EvClose 12])"
proof -
  have io: "os_ExpandEnv example_world ''/etc/clair/hexkey.yaml'' = ''/etc/clair/hexkey.yaml''"
    "os_Open example_world ''/etc/clair/hexkey.yaml'' = Inr 12"
    "ioutil_ReadAll example_world 12 =
       Inr ''clair: {api: {paginationkey: 9f3c1a7be2d405860b6e58c1f2a4d3977c10e5ab44d9026f8b31c7e05a9d62f4}}''"
    by (simp_all add: example_defs)
  have um: "yaml_Unmarshal example_world
       ''clair: {api: {paginationkey: 9f3c1a7be2d405860b6e58c1f2a4d3977c10e5ab44d9026f8b31c7e05a9d62f4}}''
       \<lparr>Clair = DefaultConfig\<rparr> =
     Inr \<lparr>Clair = DefaultConfig\<lparr>API := Some
         \<lparr> Port = 6060, HealthPort = 6061, Timeout = 900000000000,
           PaginationKey = ''9f3c1a7be2d405860b6e58c1f2a4d3977c10e5ab44d9026f8b31c7e05a9d62f4'',
           CertFile = '''', KeyFile = '''', CAFile = '''' \<rparr>\<rparr>\<rparr>"
    by (simp add: example_defs overlay_defs default_defs)
  from lenient_DecodeKey_hex obtain k where
    k: "lenient_DecodeKey ''9f3c1a7be2d405860b6e58c1f2a4d3977c10e5ab44d9026f8b31c7e05a9d62f4'' = Inr k"
    by blast
  show ?thesis
    by (simp add: LoadConfig_def Let_def pagination_key_step_def lenient_world_fields io um k)
qed

text \<open>
  C1, as the code has it. For a non-empty path, a call that returns with no error
  returns a config whose pagination key is either the non-empty key of the decoded
  document, unchanged, which \<^verbatim>\<open>fernet.DecodeKey\<close> accepted, or, the decoded key being
  empty, the encoding of the freshly generated key, stored into the config; nothing else
  of the decoded config changes. (For the empty path the key stays empty; and a key is
  checked by nothing but \<^verbatim>\<open>fernet.DecodeKey\<close>.)
\<close>

theorem LoadConfig_pagination_key:
  assumes "path \<noteq> ''''"
    and "LoadConfig w path = (Return (Some c) None, evs)"
  shows "\<exists>f d cf api0 api.
           os_Open w (os_ExpandEnv w path) = Inr f \<and> ioutil_ReadAll w f = Inr d \<and>
           yaml_Unmarshal w d \<lparr>Clair = DefaultConfig\<rparr> = Inr cf \<and>
           API (Clair cf) = Some api0 \<and> API c = Some api \<and>
           (if PaginationKey api0 = ''''
            then \<exists>k. key_Generate w = Inr k \<and> PaginationKey api = key_Encode w k \<and>
                   c = (Clair cf)\<lparr>API := Some (api0\<lparr>PaginationKey := key_Encode w k\<rparr>)\<rparr>
            else PaginationKey api = PaginationKey api0 \<and> c = Clair cf \<and>
                 (\<exists>k. fernet_DecodeKey w (PaginationKey api0) = Inr k))"
proof -
  from LoadConfig_Return_Some [OF assms] obtain f d cf evs' where
    io: "os_Open w (os_ExpandEnv w path) = Inr f" "ioutil_ReadAll w f = Inr d"
      "yaml_Unmarshal w d \<lparr>Clair = DefaultConfig\<rparr> = Inr cf"
    and step: "pagination_key_step w (Clair cf) = (Return (Some c) None, evs')"
    by blast
  from pagination_key_step_Return [OF step] obtain api0 where
    a0: "API (Clair cf) = Some api0"
    and k: "if PaginationKey api0 = ''''
            then \<exists>k. key_Generate w = Inr k \<and>
                   c = (Clair cf)\<lparr>API := Some (api0\<lparr>PaginationKey := key_Encode w k\<rparr>)\<rparr>
            else c = Clair cf \<and> (\<exists>k. fernet_DecodeKey w (PaginationKey api0) = Inr k)"
    by (auto split: if_splits)
  have "\<exists>api. API c = Some api \<and>
      (if PaginationKey api0 = ''''
       then \<exists>k. key_Generate w = Inr k \<and> PaginationKey api = key_Encode w k \<and>
              c = (Clair cf)\<lparr>API := Some (api0\<lparr>PaginationKey := key_Encode w k\<rparr>)\<rparr>
       else PaginationKey api = PaginationKey api0 \<and> c = Clair cf \<and>
            (\<exists>k. fernet_DecodeKey w (PaginationKey api0) = Inr k))"
  proof (cases "PaginationKey api0 = ''''")
    case True
    with k obtain key where "key_Generate w = Inr key"
      and "c = (Clair cf)\<lparr>API := Some (api0\<lparr>PaginationKey := key_Encode w key\<rparr>)\<rparr>"
      by auto
    with True show ?thesis by auto
  next
    case False
    with k a0 show ?thesis by auto
  qed
  with io a0 show ?thesis by blast
qed

theorem LoadConfig_pagination_key_witness:
  "''/etc/clair/key.yaml'' \<noteq> '''' \<and>
   LoadConfig example_world ''/etc/clair/key.yaml'' = (Return (Some example_config_key) None,
      [EvExpandEnv ''/etc/clair/key.yaml'', EvOpen ''/etc/clair/key.yaml'',
       EvReadAll 5, EvClose 5]) \<and>
   (\<exists>f d cf api0 api.
      os_Open example_world (os_ExpandEnv example_world ''/etc/clair/key.yaml'') = Inr f \<and>
      ioutil_ReadAll example_world f = Inr d \<and>
      yaml_Unmarshal example_world d \<lparr>Clair = DefaultConfig\<rparr> = Inr cf \<and>
      API (Clair cf) = Some api0 \<and>
      API (example_config_key) = Some api \<and>
      (if PaginationKey api0 = ''''
       then \<exists>k. key_Generate example_world = Inr k \<and>
              PaginationKey api = key_Encode example_world k \<and>
              example_config_key =
                (Clair cf)\<lparr>API := Some (api0\<lparr>PaginationKey := key_Encode example_world k\<rparr>)\<rparr>
       else PaginationKey api = PaginationKey api0 \<and>
            example_config_key = Clair cf \<and>
            (\<exists>k. fernet_DecodeKey example_world (PaginationKey api0) = Inr k))) \<and>
   ''/etc/clair/port.yaml'' \<noteq> '''' \<and>
   LoadConfig example_world ''/etc/clair/port.yaml'' = (Return (Some example_config_port) None,
      [EvExpandEnv ''/etc/clair/port.yaml'', EvOpen ''/etc/clair/port.yaml'',
       EvReadAll 3, EvRandRead, EvClose 3]) \<and>
   (\<exists>f d cf api0 api.
      os_Open example_world (os_ExpandEnv example_world ''/etc/clair/port.yaml'') = Inr f \<and>
      ioutil_ReadAll example_world f = Inr d \<and>
      yaml_Unmarshal example_world d \<lparr>Clair = DefaultConfig\<rparr> = Inr cf \<and>
      API (Clair cf) = Some api0 \<and>
      API (example_config_port) = Some api \<and>
      (if PaginationKey api0 = ''''
       then \<exists>k. key_Generate example_world = Inr k \<and>
              PaginationKey api = key_Encode example_world k \<and>
              example_config_port =
                (Clair cf)\<lparr>API := Some (api0\<lparr>PaginationKey := key_Encode example_world k\<rparr>)\<rparr>
       else PaginationKey api = PaginationKey api0 \<and>
            example_config_port = Clair cf \<and>
            (\<exists>k. fernet_DecodeKey example_world (PaginationKey api0) = Inr k)))"
proof -
  have ne: "''/etc/clair/key.yaml'' \<noteq> ''''" "''/etc/clair/port.yaml'' \<noteq> ''''"
    by simp_all
  have run: "LoadConfig example_world ''/etc/clair/key.yaml'' =
      (Return (Some example_config_key) None,
       [EvExpandEnv ''/etc/clair/key.yaml'', EvOpen ''/etc/clair/key.yaml'',
        EvReadAll 5, EvClose 5])"
    "LoadConfig example_world ''/etc/clair/port.yaml'' =
      (Return (Some example_config_port) None,
       [EvExpandEnv ''/etc/clair/port.yaml'', EvOpen ''/etc/clair/port.yaml'',
        EvReadAll 3, EvRandRead, EvClose 3])"
    by (simp_all add: example_run_key example_run_port example_config_key_def
        example_config_port_def)
  from LoadConfig_pagination_key [OF ne(1) run(1)] LoadConfig_pagination_key [OF ne(2) run(2)]
    ne run
  show ?thesis by blast
qed

text \<open>
  C1 as stated fails twice. At the empty path the call returns with no error, and the
  pagination key of the returned config is the empty string, which is not the URL-safe
  base64 encoding of 32 bytes. And at a non-empty path, in the world with the lenient
  decoder of keys, a document that supplies the key as 64 hexadecimal digits is loaded
  with no error and the returned pagination key is that string, which is not the
  URL-safe base64 encoding of 32 bytes either (read as base64 it is 48 bytes).
\<close>

theorem LoadConfig_pagination_key_counterexample:
  "LoadConfig example_world '''' = (Return (Some DefaultConfig) None, []) \<and>
   map_option PaginationKey (API DefaultConfig) = Some '''' \<and>
   \<not> valid_pagination_key '''' \<and>
   LoadConfig lenient_world ''/etc/clair/hexkey.yaml'' =
     (Return (Some (DefaultConfig\<lparr>API := Some
         \<lparr> Port = 6060, HealthPort = 6061, Timeout = 900000000000,
           PaginationKey = ''9f3c1a7be2d405860b6e58c1f2a4d3977c10e5ab44d9026f8b31c7e05a9d62f4'',
           CertFile = '''', KeyFile = '''', CAFile = '''' \<rparr>\<rparr>)) None,
      [EvExpandEnv ''/etc/clair/hexkey.yaml'', EvOpen ''/etc/clair/hexkey.yaml'',
       EvReadAll 12, EvClose 12]) \<and>
   \<not> valid_pagination_key ''9f3c1a7be2d405860b6e58c1f2a4d3977c10e5ab44d9026f8b31c7e05a9d62f4''"
  using lenient_run_hexkey
  by (simp add: LoadConfig_def DefaultConfig_def b64url_defs)

text \<open>
  C4, as the code has it. When the decoded document carries a non-empty pagination key
  that \<^verbatim>\<open>fernet.DecodeKey\<close> refuses, the call ends there: it returns the decoded config
  together with a new error of the package, in place of the decoder's, and only the
  close of the file follows. The message of the error starts with
  \<^verbatim>\<open>invalid Pagination key; must be 32-\<close> and ends with \<^verbatim>\<open> URL-safe base64\<close>.
\<close>

theorem LoadConfig_invalid_pagination_key:
  assumes "path \<noteq> ''''" and "os_Open w (os_ExpandEnv w path) = Inr f"
    and "ioutil_ReadAll w f = Inr d"
    and "yaml_Unmarshal w d \<lparr>Clair = DefaultConfig\<rparr> = Inr cf"
    and "API (Clair cf) = Some api" and "PaginationKey api \<noteq> ''''"
    and "fernet_DecodeKey w (PaginationKey api) = Inl m"
  shows "\<exists>unit e. e = ErrorsNew (''invalid Pagination key; must be 32-'' @ unit @ '' URL-safe base64'') \<and>
           is_ValidationError e \<and>
           LoadConfig w path =
             (Return (Some (Clair cf)) (Some e),
              [EvExpandEnv path, EvOpen (os_ExpandEnv w path), EvReadAll f, EvClose f])"
proof -
  have "LoadConfig w path =
      (Return (Some (Clair cf))
         (Some (ErrorsNew (''invalid Pagination key; must be 32-'' @ ''bit'' @ '' URL-safe base64''))),
       [EvExpandEnv path, EvOpen (os_ExpandEnv w path), EvReadAll f, EvClose f])"
    using assms(5-7)
    by (simp add: LoadConfig_after_Unmarshal [OF assms(1-4)] pagination_key_step_def)
  moreover have "is_ValidationError
      (ErrorsNew (''invalid Pagination key; must be 32-'' @ ''bit'' @ '' URL-safe base64''))"
    by (simp add: ErrDatasourceNotLoaded_def)
  ultimately show ?thesis by blast
qed

theorem LoadConfig_invalid_pagination_key_witness:
  "fernet_DecodeKey example_world ''not-valid-base64!!'' = Inl ''illegal base64 data'' \<and>
   (\<exists>unit. LoadConfig example_world ''$CLAIR_ETC/badkey.yaml'' =
      (Return (Some (DefaultConfig\<lparr>API :=
           map_option (PaginationKey_update (\<lambda>_. ''not-valid-base64!!'')) (API DefaultConfig)\<rparr>))
         (Some (ErrorsNew (''invalid Pagination key; must be 32-'' @ unit @ '' URL-safe base64''))),
       [EvExpandEnv ''$CLAIR_ETC/badkey.yaml'',
        EvOpen (os_ExpandEnv example_world ''$CLAIR_ETC/badkey.yaml''), EvReadAll 4, EvClose 4]))"
proof -
  have ne: "''$CLAIR_ETC/badkey.yaml'' \<noteq> ''''" by simp
  have op: "os_Open example_world (os_ExpandEnv example_world ''$CLAIR_ETC/badkey.yaml'') = Inr 4"
    by (simp add: example_ExpandEnv example_Open)
  have api: "API (Clair \<lparr>Clair = DefaultConfig\<lparr>API :=
       map_option (PaginationKey_update (\<lambda>_. ''not-valid-base64!!'')) (API DefaultConfig)\<rparr>\<rparr>) =
     Some \<lparr> Port = 6060, HealthPort = 6061, Timeout = 900 * Second,
            PaginationKey = ''not-valid-base64!!'',
            CertFile = '''', KeyFile = '''', CAFile = '''' \<rparr>"
    by (simp add: DefaultConfig_def)
  have key: "PaginationKey \<lparr> Port = 6060, HealthPort = 6061, Timeout = 900 * Second,
            PaginationKey = ''not-valid-base64!!'',
            CertFile = '''', KeyFile = '''', CAFile = '''' \<rparr> \<noteq> ''''"
    by simp
  have rej: "fernet_DecodeKey example_world
      (PaginationKey \<lparr> Port = 6060, HealthPort = 6061, Timeout = 900 * Second,
            PaginationKey = ''not-valid-base64!!'',
            CertFile = '''', KeyFile = '''', CAFile = '''' \<rparr>) = Inl ''illegal base64 data''"
    by (simp add: example_DecodeKey)
  from LoadConfig_invalid_pagination_key
    [OF ne op example_ReadAll(4) example_Unmarshal_default(2) api key rej]
  show ?thesis by (auto simp: example_DecodeKey)
qed

text \<open>
  C4 as stated fails on the message: for the key \<^verbatim>\<open>not-valid-base64!!\<close> the returned
  error is not the one whose message is
  \<^verbatim>\<open>invalid pagination key; must be 32-byte URL-safe base64\<close>.
\<close>

theorem LoadConfig_invalid_pagination_key_counterexample:
  "\<not> valid_pagination_key ''not-valid-base64!!'' \<and>
   returned_error (fst (LoadConfig example_world ''$CLAIR_ETC/badkey.yaml'')) =
     Some (Some (ErrorsNew ''invalid Pagination key; must be 32-bit URL-safe base64'')) \<and>
   returned_error (fst (LoadConfig example_world ''$CLAIR_ETC/badkey.yaml'')) \<noteq>
     Some (Some (ErrorsNew ''invalid pagination key; must be 32-byte URL-safe base64''))"
  by (simp add: example_run_badkey valid_example_keys)


subsection \<open>The document and the defaults\<close>

lemma unmarshals_as_Inr:
  assumes "unmarshals_as w d doc"
  shows "(yaml_Unmarshal w d cfgFile = Inr cf) =
         (overlay_File (time_ParseDuration w) doc cfgFile = Some cf)"
proof -
  from assms have
    "case overlay_File (time_ParseDuration w) doc cfgFile of
       None \<Rightarrow> (\<exists>m. yaml_Unmarshal w d cfgFile = Inl m)
     | Some cfgFile' \<Rightarrow> yaml_Unmarshal w d cfgFile = Inr cfgFile'"
    by (simp add: unmarshals_as_def)
  then show ?thesis by (auto split: option.splits)
qed

lemma overlay_File_blocks:
  assumes "overlay_File pd doc \<lparr>Clair = DefaultConfig\<rparr> = Some cf"
  shows "(Updater (Clair cf) = None) = nulls_updater doc"
    and "(Notifier (Clair cf) = None) = nulls_notifier doc"
  using assms
  by (auto simp: overlay_File_def overlay_Config_def set_pointer_def nulls_updater_def
      nulls_notifier_def zero_Config_def DefaultConfig_def
      split: yaml_field.splits option.splits)

lemma pagination_key_step_frame:
  assumes "pagination_key_step w c0 = (Return (Some c) e, evs)"
  shows "Database c = Database c0" and "Updater c = Updater c0" and "Notifier c = Notifier c0"
    and "map_option (PaginationKey_update (\<lambda>_. '''')) (API c) =
         map_option (PaginationKey_update (\<lambda>_. '''')) (API c0)"
    and "API c \<noteq> None"
  using pagination_key_step_Return [OF assms]
  by (auto split: if_splits)

text \<open>
  C5, as the code has it. Whenever \<^verbatim>\<open>LoadConfig\<close> returns a config, its API
  block is set. For the empty path the updater and the notifier blocks are set too. For
  a file whose content is a
  document, each of the two is set unless the document overrides it with nothing (gives
  the block, or all of \<^verbatim>\<open>clair\<close>, as null): it is nil exactly in that case.
\<close>

theorem LoadConfig_blocks_set:
  assumes "LoadConfig w path = (Return (Some c) e, evs)"
  shows "API c \<noteq> None \<and>
         (path = '''' \<longrightarrow> Updater c \<noteq> None \<and> Notifier c \<noteq> None) \<and>
         (\<forall>f d doc. path \<noteq> '''' \<and> os_Open w (os_ExpandEnv w path) = Inr f \<and>
              ioutil_ReadAll w f = Inr d \<and> unmarshals_as w d doc \<longrightarrow>
            (\<not> nulls_updater doc \<longrightarrow> Updater c \<noteq> None) \<and>
            (\<not> nulls_notifier doc \<longrightarrow> Notifier c \<noteq> None) \<and>
            (nulls_updater doc \<longrightarrow> Updater c = None) \<and>
            (nulls_notifier doc \<longrightarrow> Notifier c = None))"
proof (cases "path = ''''")
  case True
  with assms have "c = DefaultConfig" by (simp add: LoadConfig_def)
  with True show ?thesis by (simp add: DefaultConfig_def)
next
  case False
  from LoadConfig_Return_Some [OF False assms] obtain f d cf evs' where
    io: "os_Open w (os_ExpandEnv w path) = Inr f" "ioutil_ReadAll w f = Inr d"
      "yaml_Unmarshal w d \<lparr>Clair = DefaultConfig\<rparr> = Inr cf"
    and step: "pagination_key_step w (Clair cf) = (Return (Some c) e, evs')"
    by blast
  note frame = pagination_key_step_frame [OF step]
  have "(Updater c = None) = nulls_updater doc \<and> (Notifier c = None) = nulls_notifier doc"
    if "os_Open w (os_ExpandEnv w path) = Inr f'" "ioutil_ReadAll w f' = Inr d'"
      "unmarshals_as w d' doc" for f' d' doc
  proof -
    from that io have "unmarshals_as w d doc" by simp
    with io(3) have "overlay_File (time_ParseDuration w) doc \<lparr>Clair = DefaultConfig\<rparr> = Some cf"
      by (simp add: unmarshals_as_Inr)
    from overlay_File_blocks [OF this] frame show ?thesis by simp
  qed
  with False frame(5) show ?thesis by blast
qed

theorem LoadConfig_blocks_set_witness:
  "LoadConfig example_world ''/etc/clair/port.yaml'' =
     (Return (Some (DefaultConfig\<lparr>API := Some
         \<lparr> Port = 8080, HealthPort = 6061, Timeout = 900000000000,
           PaginationKey = ''-_--AxEqY8gHCAkKCwwNDg8Q_wCAQCAQCAQCAU1YY28='',
           CertFile = '''', KeyFile = '''', CAFile = '''' \<rparr>\<rparr>)) None,
      [EvExpandEnv ''/etc/clair/port.yaml'', EvOpen ''/etc/clair/port.yaml'',
       EvReadAll 3, EvRandRead, EvClose 3]) \<and>
   unmarshals_as example_world ''clair: {api: {port: 8080}}'' (port_only 8080) \<and>
   \<not> nulls_updater (port_only 8080) \<and> \<not> nulls_notifier (port_only 8080) \<and>
   Updater (DefaultConfig\<lparr>API := Some
         \<lparr> Port = 8080, HealthPort = 6061, Timeout = 900000000000,
           PaginationKey = ''-_--AxEqY8gHCAkKCwwNDg8Q_wCAQCAQCAQCAU1YY28='',
           CertFile = '''', KeyFile = '''', CAFile = '''' \<rparr>\<rparr>) \<noteq> None \<and>
   Notifier (DefaultConfig\<lparr>API := Some
         \<lparr> Port = 8080, HealthPort = 6061, Timeout = 900000000000,
           PaginationKey = ''-_--AxEqY8gHCAkKCwwNDg8Q_wCAQCAQCAQCAU1YY28='',
           CertFile = '''', KeyFile = '''', CAFile = '''' \<rparr>\<rparr>) \<noteq> None \<and>
   nulls_updater \<lparr> y_clair = Given (no_clair\<lparr>y_updater := Null\<rparr>) \<rparr> \<and>
   Updater (DefaultConfig\<lparr>Updater := None, API := Some
         \<lparr> Port = 6060, HealthPort = 6061, Timeout = 900000000000,
           PaginationKey = ''-_--AxEqY8gHCAkKCwwNDg8Q_wCAQCAQCAQCAU1YY28='',
           CertFile = '''', KeyFile = '''', CAFile = '''' \<rparr>\<rparr>) = None"
proof -
  have n: "\<not> nulls_updater (port_only 8080)" "\<not> nulls_notifier (port_only 8080)"
    "nulls_updater \<lparr> y_clair = Given (no_clair\<lparr>y_updater := Null\<rparr>) \<rparr>"
    by (simp_all add: nulls_updater_def nulls_notifier_def port_only_def api_only_def
        no_clair_def)
  have ne: "''/etc/clair/port.yaml'' \<noteq> ''''" "''/etc/clair/noupdater.yaml'' \<noteq> ''''"
    by simp_all
  have op: "os_Open example_world (os_ExpandEnv example_world ''/etc/clair/port.yaml'') = Inr 3"
    "os_Open example_world (os_ExpandEnv example_world ''/etc/clair/noupdater.yaml'') = Inr 8"
    by (simp_all add: example_ExpandEnv example_Open)
  from LoadConfig_blocks_set [OF example_run_port] ne(1) op(1) example_ReadAll(3)
    example_unmarshals_as(1) n(1,2)
  have a: "Updater (DefaultConfig\<lparr>API := Some
         \<lparr> Port = 8080, HealthPort = 6061, Timeout = 900000000000,
           PaginationKey = ''-_--AxEqY8gHCAkKCwwNDg8Q_wCAQCAQCAQCAU1YY28='',
           CertFile = '''', KeyFile = '''', CAFile = '''' \<rparr>\<rparr>) \<noteq> None \<and>
     Notifier (DefaultConfig\<lparr>API := Some
         \<lparr> Port = 8080, HealthPort = 6061, Timeout = 900000000000,
           PaginationKey = ''-_--AxEqY8gHCAkKCwwNDg8Q_wCAQCAQCAQCAU1YY28='',
           CertFile = '''', KeyFile = '''', CAFile = '''' \<rparr>\<rparr>) \<noteq> None"
    by blast
  from LoadConfig_blocks_set [OF example_run_noupdater] ne(2) op(2) example_ReadAll(8)
    example_unmarshals_as(6) n(3)
  have b: "Updater (DefaultConfig\<lparr>Updater := None, API := Some
         \<lparr> Port = 6060, HealthPort = 6061, Timeout = 900000000000,
           PaginationKey = ''-_--AxEqY8gHCAkKCwwNDg8Q_wCAQCAQCAQCAU1YY28='',
           CertFile = '''', KeyFile = '''', CAFile = '''' \<rparr>\<rparr>) = None"
    by blast
  from a b n example_run_port example_unmarshals_as(1) show ?thesis by blast
qed

text \<open>
  C5 as stated fails for a document that gives a block as null: the file
  \<^verbatim>\<open>noupdater.yaml\<close> holds \<^verbatim>\<open>clair: {updater: ~}\<close>, the call returns with no error, and
  the updater block of the returned config is nil.
\<close>

theorem LoadConfig_blocks_set_counterexample:
  "unmarshals_as example_world ''clair: {updater: ~}''
     \<lparr> y_clair = Given (no_clair\<lparr>y_updater := Null\<rparr>) \<rparr> \<and>
   LoadConfig example_world ''/etc/clair/noupdater.yaml'' =
     (Return (Some (DefaultConfig\<lparr>Updater := None, API := Some
         \<lparr> Port = 6060, HealthPort = 6061, Timeout = 900000000000,
           PaginationKey = ''-_--AxEqY8gHCAkKCwwNDg8Q_wCAQCAQCAQCAU1YY28='',
           CertFile = '''', KeyFile = '''', CAFile = '''' \<rparr>\<rparr>)) None,
      [EvExpandEnv ''/etc/clair/noupdater.yaml'', EvOpen ''/etc/clair/noupdater.yaml'',
       EvReadAll 8, EvRandRead, EvClose 8]) \<and>
   Updater (DefaultConfig\<lparr>Updater := None, API := Some
         \<lparr> Port = 6060, HealthPort = 6061, Timeout = 900000000000,
           PaginationKey = ''-_--AxEqY8gHCAkKCwwNDg8Q_wCAQCAQCAQCAU1YY28='',
           CertFile = '''', KeyFile = '''', CAFile = '''' \<rparr>\<rparr>) = None"
  by (simp add: example_run_noupdater example_unmarshals_as)

text \<open>
  C9. A document that gives \<^verbatim>\<open>api.timeout\<close> as a string which \<^verbatim>\<open>time.ParseDuration\<close>
  reads as the duration \<open>t\<close>, and which is well-formed otherwise (its overlay on the
  defaults exists), is decoded: the call returns a config whose API timeout is \<open>t\<close>,
  and the error returned with it, if any, is neither an IOError nor a ParseError.
\<close>

theorem LoadConfig_timeout:
  assumes "path \<noteq> ''''" and "os_Open w (os_ExpandEnv w path) = Inr f"
    and "ioutil_ReadAll w f = Inr d" and "unmarshals_as w d doc"
    and "y_clair doc = Given cd" and "y_api cd = Given a" and "y_timeout a = Given s"
    and "time_ParseDuration w s = Some t"
    and "overlay_File (time_ParseDuration w) doc \<lparr>Clair = DefaultConfig\<rparr> \<noteq> None"
  shows "\<exists>c e evs api. LoadConfig w path = (Return (Some c) e, evs) \<and>
           API c = Some api \<and> Timeout api = t \<and>
           (\<forall>x. e = Some x \<longrightarrow> \<not> is_IOError x \<and> \<not> is_ParseError x)"
proof -
  from assms(9) obtain cf where
    ov: "overlay_File (time_ParseDuration w) doc \<lparr>Clair = DefaultConfig\<rparr> = Some cf"
    by blast
  with assms(4) have um: "yaml_Unmarshal w d \<lparr>Clair = DefaultConfig\<rparr> = Inr cf"
    by (simp add: unmarshals_as_Inr)
  from ov assms(5-8) obtain api0 where
    a0: "API (Clair cf) = Some api0" "Timeout api0 = t"
    by (auto simp: overlay_File_def overlay_Config_def overlay_api_def set_pointer_def
        set_duration_def split: option.splits)
  note run = LoadConfig_after_Unmarshal [OF assms(1-3) um]
  obtain r evs' where step: "pagination_key_step w (Clair cf) = (r, evs')"
    by (cases "pagination_key_step w (Clair cf)")
  from a0 step obtain c e where r: "r = Return (Some c) e"
    by (auto simp: pagination_key_step_def split: sum.splits if_splits)
  from step r have st: "pagination_key_step w (Clair cf) = (Return (Some c) e, evs')"
    by simp
  from pagination_key_step_Return [OF st] a0
  have "\<exists>api. API c = Some api \<and> Timeout api = t"
    by (auto split: if_splits)
  moreover have "\<forall>x. e = Some x \<longrightarrow> \<not> is_IOError x \<and> \<not> is_ParseError x"
    using pagination_key_step_error [of w "Clair cf" "Some c" _ evs'] st by auto
  ultimately show ?thesis using run st by auto
qed

theorem LoadConfig_timeout_witness:
  "unmarshals_as example_world ''clair: {api: {timeout: 45s}}''
     (api_only (no_api\<lparr>y_timeout := Given ''45s''\<rparr>)) \<and>
   time_ParseDuration example_world ''45s'' = Some 45000000000 \<and>
   LoadConfig example_world ''/etc/clair/timeout.yaml'' =
     (Return (Some (DefaultConfig\<lparr>API := Some
         \<lparr> Port = 6060, HealthPort = 6061, Timeout = 45000000000,
           PaginationKey = ''-_--AxEqY8gHCAkKCwwNDg8Q_wCAQCAQCAQCAU1YY28='',
           CertFile = '''', KeyFile = '''', CAFile = '''' \<rparr>\<rparr>)) None,
      [EvExpandEnv ''/etc/clair/timeout.yaml'', EvOpen ''/etc/clair/timeout.yaml'',
       EvReadAll 6, EvRandRead, EvClose 6]) \<and>
   (\<exists>c e evs api. LoadConfig example_world ''/etc/clair/timeout.yaml'' = (Return (Some c) e, evs) \<and>
      API c = Some api \<and> Timeout api = 45000000000 \<and>
      (\<forall>x. e = Some x \<longrightarrow> \<not> is_IOError x \<and> \<not> is_ParseError x))"
proof -
  have ne: "''/etc/clair/timeout.yaml'' \<noteq> ''''" by simp
  have op: "os_Open example_world (os_ExpandEnv example_world ''/etc/clair/timeout.yaml'') = Inr 6"
    by (simp add: example_ExpandEnv example_Open)
  have doc: "y_clair (api_only (no_api\<lparr>y_timeout := Given ''45s''\<rparr>)) =
      Given (no_clair\<lparr>y_api := Given (no_api\<lparr>y_timeout := Given ''45s''\<rparr>)\<rparr>)"
    "y_api (no_clair\<lparr>y_api := Given (no_api\<lparr>y_timeout := Given ''45s''\<rparr>)\<rparr>) =
      Given (no_api\<lparr>y_timeout := Given ''45s''\<rparr>)"
    "y_timeout (no_api\<lparr>y_timeout := Given ''45s''\<rparr>) = Given ''45s''"
    by (simp_all add: api_only_def)
  have wf: "overlay_File (time_ParseDuration example_world)
      (api_only (no_api\<lparr>y_timeout := Given ''45s''\<rparr>)) \<lparr>Clair = DefaultConfig\<rparr> \<noteq> None"
    using example_unmarshals_as(4) example_Unmarshal_default(4)
    by (simp add: unmarshals_as_Inr)
  from LoadConfig_timeout [OF ne op example_ReadAll(6) example_unmarshals_as(4) doc
      example_ParseDuration_45s wf]
    example_unmarshals_as(4) example_ParseDuration_45s example_run_timeout
  show ?thesis by blast
qed


lemma overlay_File_port_only:
  "overlay_File pd (port_only p) \<lparr>Clair = DefaultConfig\<rparr> =
     Some \<lparr>Clair = DefaultConfig\<lparr>API := map_option (Port_update (\<lambda>_. p)) (API DefaultConfig)\<rparr>\<rparr>"
  by (simp add: overlay_defs DefaultConfig_def)

lemma overlay_File_Absent:
  assumes "overlay_File pd doc \<lparr>Clair = DefaultConfig\<rparr> = Some cf" and "y_clair doc = Absent"
  shows "Clair cf = DefaultConfig"
  using assms by (auto simp: overlay_File_def)

lemma overlay_File_Given:
  assumes "overlay_File pd doc \<lparr>Clair = DefaultConfig\<rparr> = Some cf" and "y_clair doc = Given cd"
  shows "overlay_Config pd cd DefaultConfig = Some (Clair cf)"
  using assms by (auto simp: overlay_File_def)

lemma overlay_Config_absent_blocks:
  assumes "overlay_Config pd cd DefaultConfig = Some c0"
  shows "y_database cd = Absent \<longrightarrow> Database c0 = Database DefaultConfig"
    and "y_updater cd = Absent \<longrightarrow> Updater c0 = Updater DefaultConfig"
    and "y_notifier cd = Absent \<longrightarrow> Notifier c0 = Notifier DefaultConfig"
    and "y_api cd = Absent \<longrightarrow> API c0 = API DefaultConfig"
  using assms
  by (auto simp: overlay_Config_def set_pointer_def split: option.splits)

lemma overlay_Config_database:
  assumes "overlay_Config pd cd DefaultConfig = Some c0" and "y_database cd = Given dd"
  shows "overlaid (y_type dd) ''pgsql'' (Type (Database c0))"
    and "overlaid (y_options dd) [] (Options (Database c0))"
  using assms
  by (auto simp: overlay_Config_def overlay_database_def set_field_def overlaid_def
      DefaultConfig_def split: option.splits)

lemma overlay_Config_updater:
  assumes "overlay_Config pd cd DefaultConfig = Some c0" and "y_updater cd = Given u"
  shows "\<exists>up. Updater c0 = Some up \<and> overlaid (y_cron u) ''@midnight'' (Cron up) \<and>
           overlaid (y_disabled u) False (Disabled up)"
  using assms
  by (auto simp: overlay_Config_def overlay_updater_def set_pointer_def set_field_def
      overlaid_def DefaultConfig_def split: option.splits)

lemma overlay_Config_notifier:
  assumes "overlay_Config pd cd DefaultConfig = Some c0" and "y_notifier cd = Given n"
  shows "\<exists>no. Notifier c0 = Some no \<and> overlaid (y_attempts n) 5 (Attempts no) \<and>
           overlaid_duration pd (y_renotifyinterval n) (2 * Hour) (RenotifyInterval no)"
  using assms
  by (auto simp: overlay_Config_def overlay_notifier_def set_pointer_def set_field_def
      set_duration_def overlaid_def overlaid_duration_def DefaultConfig_def
      split: option.splits)

lemma overlay_Config_api:
  assumes "overlay_Config pd cd DefaultConfig = Some c0" and "y_api cd = Given a"
  shows "\<exists>api. API c0 = Some api \<and> overlaid (y_port a) 6060 (Port api) \<and>
           overlaid (y_healthport a) 6061 (HealthPort api) \<and>
           overlaid_duration pd (y_timeout a) (900 * Second) (Timeout api) \<and>
           overlaid (y_paginationkey a) '''' (PaginationKey api) \<and>
           overlaid (y_certfile a) '''' (CertFile api) \<and>
           overlaid (y_keyfile a) '''' (KeyFile api) \<and>
           overlaid (y_cafile a) '''' (CAFile api)"
  using assms
  by (auto simp: overlay_Config_def overlay_api_def set_pointer_def set_field_def
      set_duration_def overlaid_def overlaid_duration_def DefaultConfig_def
      split: option.splits)

text \<open>
  C3, as the code has it. Let the file at a non-empty path hold a document. If the
  document overrides only \<^verbatim>\<open>api.port\<close> and a key can be generated, the call returns,
  with no error, the defaults with that port and with the encoding of the generated key
  as pagination key: every field but these two is the default. In general a returned
  config is the overlay of the document on the defaults, up to the pagination key, which
  differs only when the overlay leaves it empty. So: with no \<^verbatim>\<open>clair\<close> key everything
  but the pagination key is the default; a block that the document leaves absent is the
  default block (the API block up to the pagination key); in a block that the document
  gives, a key left absent keeps its default and a key given a value takes that value (a
  given pagination key only when it is not empty).
\<close>

theorem LoadConfig_overlay:
  assumes "path \<noteq> ''''" and "os_Open w (os_ExpandEnv w path) = Inr f"
    and "ioutil_ReadAll w f = Inr d" and "unmarshals_as w d doc"
  shows "(\<forall>p k. doc = port_only p \<and> key_Generate w = Inr k \<longrightarrow>
            fst (LoadConfig w path) =
              Return (Some (DefaultConfig\<lparr>API :=
                  map_option (\<lambda>a. a\<lparr>Port := p, PaginationKey := key_Encode w k\<rparr>)
                    (API DefaultConfig)\<rparr>)) None) \<and>
         (\<forall>c e evs. LoadConfig w path = (Return (Some c) e, evs) \<longrightarrow>
            (\<exists>c0. overlay_File (time_ParseDuration w) doc \<lparr>Clair = DefaultConfig\<rparr> =
                    Some \<lparr>Clair = c0\<rparr> \<and>
                  Database c = Database c0 \<and> Updater c = Updater c0 \<and>
                  Notifier c = Notifier c0 \<and>
                  map_option (PaginationKey_update (\<lambda>_. '''')) (API c) =
                    map_option (PaginationKey_update (\<lambda>_. '''')) (API c0) \<and>
                  (\<forall>a0. API c0 = Some a0 \<and> PaginationKey a0 \<noteq> '''' \<longrightarrow> c = c0)) \<and>
            (y_clair doc = Absent \<longrightarrow>
               Database c = Database DefaultConfig \<and> Updater c = Updater DefaultConfig \<and>
               Notifier c = Notifier DefaultConfig \<and>
               map_option (PaginationKey_update (\<lambda>_. '''')) (API c) = API DefaultConfig) \<and>
            (\<forall>cd. y_clair doc = Given cd \<longrightarrow>
               (y_database cd = Absent \<longrightarrow> Database c = Database DefaultConfig) \<and>
               (y_updater cd = Absent \<longrightarrow> Updater c = Updater DefaultConfig) \<and>
               (y_notifier cd = Absent \<longrightarrow> Notifier c = Notifier DefaultConfig) \<and>
               (y_api cd = Absent \<longrightarrow>
                  map_option (PaginationKey_update (\<lambda>_. '''')) (API c) = API DefaultConfig) \<and>
               (\<forall>dd. y_database cd = Given dd \<longrightarrow>
                  overlaid (y_type dd) ''pgsql'' (Type (Database c)) \<and>
                  overlaid (y_options dd) [] (Options (Database c))) \<and>
               (\<forall>u. y_updater cd = Given u \<longrightarrow>
                  (\<exists>up. Updater c = Some up \<and> overlaid (y_cron u) ''@midnight'' (Cron up) \<and>
                     overlaid (y_disabled u) False (Disabled up))) \<and>
               (\<forall>n. y_notifier cd = Given n \<longrightarrow>
                  (\<exists>no. Notifier c = Some no \<and> overlaid (y_attempts n) 5 (Attempts no) \<and>
                     overlaid_duration (time_ParseDuration w) (y_renotifyinterval n) (2 * Hour)
                       (RenotifyInterval no))) \<and>
               (\<forall>a. y_api cd = Given a \<longrightarrow>
                  (\<exists>api. API c = Some api \<and> overlaid (y_port a) 6060 (Port api) \<and>
                     overlaid (y_healthport a) 6061 (HealthPort api) \<and>
                     overlaid_duration (time_ParseDuration w) (y_timeout a) (900 * Second)
                       (Timeout api) \<and>
                     (\<forall>v. y_paginationkey a = Given v \<and> v \<noteq> '''' \<longrightarrow> PaginationKey api = v) \<and>
                     overlaid (y_certfile a) '''' (CertFile api) \<and>
                     overlaid (y_keyfile a) '''' (KeyFile api) \<and>
                     overlaid (y_cafile a) '''' (CAFile api)))))"
proof (intro conjI allI impI)
  fix p k assume pk: "doc = port_only p \<and> key_Generate w = Inr k"
  with assms(4) have um: "yaml_Unmarshal w d \<lparr>Clair = DefaultConfig\<rparr> =
      Inr \<lparr>Clair = DefaultConfig\<lparr>API := map_option (Port_update (\<lambda>_. p)) (API DefaultConfig)\<rparr>\<rparr>"
    by (simp add: unmarshals_as_Inr overlay_File_port_only)
  from pk show "fst (LoadConfig w path) =
      Return (Some (DefaultConfig\<lparr>API :=
          map_option (\<lambda>a. a\<lparr>Port := p, PaginationKey := key_Encode w k\<rparr>) (API DefaultConfig)\<rparr>)) None"
    by (simp add: LoadConfig_after_Unmarshal [OF assms(1-3) um] pagination_key_step_def
        DefaultConfig_def)
next
  fix c e evs assume ret: "LoadConfig w path = (Return (Some c) e, evs)"
  from LoadConfig_Return_Some [OF assms(1) ret] assms(2,3) obtain cf evs' where
    um: "yaml_Unmarshal w d \<lparr>Clair = DefaultConfig\<rparr> = Inr cf"
    and step: "pagination_key_step w (Clair cf) = (Return (Some c) e, evs')"
    by auto
  from um assms(4)
  have ov: "overlay_File (time_ParseDuration w) doc \<lparr>Clair = DefaultConfig\<rparr> = Some cf"
    by (simp add: unmarshals_as_Inr)
  note frame = pagination_key_step_frame [OF step]
  have cf: "cf = \<lparr>Clair = Clair cf\<rparr>" by simp
  have same: "c = Clair cf" if "API (Clair cf) = Some a0" "PaginationKey a0 \<noteq> ''''" for a0
    using pagination_key_step_Return [OF step] that by auto
  show "\<exists>c0. overlay_File (time_ParseDuration w) doc \<lparr>Clair = DefaultConfig\<rparr> =
                    Some \<lparr>Clair = c0\<rparr> \<and>
                  Database c = Database c0 \<and> Updater c = Updater c0 \<and>
                  Notifier c = Notifier c0 \<and>
                  map_option (PaginationKey_update (\<lambda>_. '''')) (API c) =
                    map_option (PaginationKey_update (\<lambda>_. '''')) (API c0) \<and>
                  (\<forall>a0. API c0 = Some a0 \<and> PaginationKey a0 \<noteq> '''' \<longrightarrow> c = c0)"
    using ov cf frame(1-4) same by (intro exI [of _ "Clair cf"]) auto
  {
    assume "y_clair doc = Absent"
    from overlay_File_Absent [OF ov this] frame(1-4)
    show "Database c = Database DefaultConfig" "Updater c = Updater DefaultConfig"
      "Notifier c = Notifier DefaultConfig"
      "map_option (PaginationKey_update (\<lambda>_. '''')) (API c) = API DefaultConfig"
      by (simp_all add: DefaultConfig_def)
  }
  fix cd assume "y_clair doc = Given cd"
  note oc = overlay_File_Given [OF ov this]
  note ab = overlay_Config_absent_blocks [OF oc]
  {
    assume "y_database cd = Absent"
    with ab(1) frame(1) show "Database c = Database DefaultConfig" by simp
  }
  {
    assume "y_updater cd = Absent"
    with ab(2) frame(2) show "Updater c = Updater DefaultConfig" by simp
  }
  {
    assume "y_notifier cd = Absent"
    with ab(3) frame(3) show "Notifier c = Notifier DefaultConfig" by simp
  }
  {
    assume "y_api cd = Absent"
    with ab(4) frame(4)
    show "map_option (PaginationKey_update (\<lambda>_. '''')) (API c) = API DefaultConfig"
      by (simp add: DefaultConfig_def)
  }
  {
    fix dd assume "y_database cd = Given dd"
    from overlay_Config_database [OF oc this] frame(1)
    show "overlaid (y_type dd) ''pgsql'' (Type (Database c))"
      "overlaid (y_options dd) [] (Options (Database c))"
      by simp_all
  }
  {
    fix u assume "y_updater cd = Given u"
    from overlay_Config_updater [OF oc this] frame(2)
    show "\<exists>up. Updater c = Some up \<and> overlaid (y_cron u) ''@midnight'' (Cron up) \<and>
                     overlaid (y_disabled u) False (Disabled up)"
      by simp
  }
  {
    fix n assume "y_notifier cd = Given n"
    from overlay_Config_notifier [OF oc this] frame(3)
    show "\<exists>no. Notifier c = Some no \<and> overlaid (y_attempts n) 5 (Attempts no) \<and>
                     overlaid_duration (time_ParseDuration w) (y_renotifyinterval n) (2 * Hour)
                       (RenotifyInterval no)"
      by simp
  }
  fix a assume "y_api cd = Given a"
  from overlay_Config_api [OF oc this] obtain api0 where
    a0: "API (Clair cf) = Some api0" "overlaid (y_port a) 6060 (Port api0)"
      "overlaid (y_healthport a) 6061 (HealthPort api0)"
      "overlaid_duration (time_ParseDuration w) (y_timeout a) (900 * Second) (Timeout api0)"
      "overlaid (y_paginationkey a) '''' (PaginationKey api0)"
      "overlaid (y_certfile a) '''' (CertFile api0)"
      "overlaid (y_keyfile a) '''' (KeyFile api0)"
      "overlaid (y_cafile a) '''' (CAFile api0)"
    by blast
  from frame(4,5) a0(1) obtain api where
    a1: "API c = Some api" "api\<lparr>PaginationKey := ''''\<rparr> = api0\<lparr>PaginationKey := ''''\<rparr>"
    by auto
  from a1(2) have eq: "Port api = Port api0" "HealthPort api = HealthPort api0"
    "Timeout api = Timeout api0" "CertFile api = CertFile api0" "KeyFile api = KeyFile api0"
    "CAFile api = CAFile api0"
    by (cases api, cases api0, simp)+
  have "PaginationKey api = v" if "y_paginationkey a = Given v \<and> v \<noteq> ''''" for v
  proof -
    from that a0(5) have "PaginationKey api0 = v" by (simp add: overlaid_def)
    with that same [OF a0(1)] a0(1) a1(1) show ?thesis by simp
  qed
  with a0 a1(1) eq
  show "\<exists>api. API c = Some api \<and> overlaid (y_port a) 6060 (Port api) \<and>
                     overlaid (y_healthport a) 6061 (HealthPort api) \<and>
                     overlaid_duration (time_ParseDuration w) (y_timeout a) (900 * Second)
                       (Timeout api) \<and>
                     (\<forall>v. y_paginationkey a = Given v \<and> v \<noteq> '''' \<longrightarrow> PaginationKey api = v) \<and>
                     overlaid (y_certfile a) '''' (CertFile api) \<and>
                     overlaid (y_keyfile a) '''' (KeyFile api) \<and>
                     overlaid (y_cafile a) '''' (CAFile api)"
    by simp
qed

theorem LoadConfig_overlay_witness:
  "unmarshals_as example_world ''clair: {api: {port: 8080}}'' (port_only 8080) \<and>
   key_Generate example_world = Inr example_key \<and>
   fst (LoadConfig example_world ''/etc/clair/port.yaml'') =
     Return (Some (DefaultConfig\<lparr>API :=
         map_option (\<lambda>a. a\<lparr>Port := 8080,
               PaginationKey := ''-_--AxEqY8gHCAkKCwwNDg8Q_wCAQCAQCAQCAU1YY28=''\<rparr>)
           (API DefaultConfig)\<rparr>)) None"
proof -
  have ne: "''/etc/clair/port.yaml'' \<noteq> ''''" by simp
  have op: "os_Open example_world (os_ExpandEnv example_world ''/etc/clair/port.yaml'') = Inr 3"
    by (simp add: example_ExpandEnv example_Open)
  from LoadConfig_overlay [OF ne op example_ReadAll(3) example_unmarshals_as(1)]
    example_Generate example_Encode example_unmarshals_as(1)
  show ?thesis by simp
qed

text \<open>
  C3 as stated fails on the pagination key: for a document that overrides only
  \<^verbatim>\<open>api.port\<close> the call returns with no error, and the pagination key of the returned
  config is the encoded generated key, not the empty key of \<^verbatim>\<open>DefaultConfig\<close>.
\<close>

theorem LoadConfig_overlay_counterexample:
  "unmarshals_as example_world ''clair: {api: {port: 8080}}'' (port_only 8080) \<and>
   LoadConfig example_world ''/etc/clair/port.yaml'' =
     (Return (Some (DefaultConfig\<lparr>API := Some
         \<lparr> Port = 8080, HealthPort = 6061, Timeout = 900000000000,
           PaginationKey = ''-_--AxEqY8gHCAkKCwwNDg8Q_wCAQCAQCAQCAU1YY28='',
           CertFile = '''', KeyFile = '''', CAFile = '''' \<rparr>\<rparr>)) None,
      [EvExpandEnv ''/etc/clair/port.yaml'', EvOpen ''/etc/clair/port.yaml'',
       EvReadAll 3, EvRandRead, EvClose 3]) \<and>
   map_option PaginationKey (API (DefaultConfig\<lparr>API := Some
         \<lparr> Port = 8080, HealthPort = 6061, Timeout = 900000000000,
           PaginationKey = ''-_--AxEqY8gHCAkKCwwNDg8Q_wCAQCAQCAQCAU1YY28='',
           CertFile = '''', KeyFile = '''', CAFile = '''' \<rparr>\<rparr>)) \<noteq>
     map_option PaginationKey (API DefaultConfig)"
  by (simp add: example_run_port example_unmarshals_as DefaultConfig_def)


end
